theory Spec2Isabelle
  imports Complex_Main "HOL-Library.Word" "HOL-Library.AList"
begin

section \<open>Putative matches computation: the orchestration of \<open>main_ComputeMatches.cpp\<close>\<close>

text \<open>
  The program is one function, \<open>main\<close>. It reads its options, loads the scene and the
  regions, then either reloads an existing match file or allocates a matcher, loads the
  pair list, matches and saves; at the end it exports two diagnostics.

  Everything \<open>main\<close> calls lives in other files of the library. The model takes those
  functions as the fields of a record \<open>Ext\<close>, one field per function called, and logs every
  call as an \<open>event\<close>: the trace of a run is the list of calls it made, in order, and
  the result of a run is the failure it stopped on or the putative matches it ended with.
  The functions called are taken to return: an exception thrown inside one of them is
  outside the model. What \<open>main\<close> prints is not kept, except the matcher it announces.
\<close>

subsection \<open>Data\<close>

text \<open>\<open>IndexT\<close> and \<open>size_t\<close> are unsigned machine integers in the library; no
  arithmetic is done on them here, and they are natural numbers. \<open>Pair_Set\<close> is a
  \<open>std::set\<close> and \<open>PairWiseMatches\<close> a \<open>std::map\<close>: a list of pairs, and an association
  list whose keys are distinct.\<close>

type_synonym IndexT = nat
type_synonym Pair = "IndexT \<times> IndexT"
type_synonym Pair_Set = "Pair list"
type_synonym IndMatch = "IndexT \<times> IndexT"
type_synonym IndMatches = "IndMatch list"
type_synonym PairWiseMatches = "(Pair \<times> IndMatches) list"

record View =
  id_view :: IndexT
  s_Img_path :: string
  ui_width :: nat
  ui_height :: nat

text \<open>The views of a scene are a map from view id to view: an association list, whose
  keys are distinct, so that its length is the \<open>size()\<close> of the map.\<close>

record SfM_Data =
  s_root_path :: string
  views :: "(IndexT \<times> View) list"

text \<open>
  \<open>regions_type\<close> is only asked two questions by \<open>main\<close>, \<open>IsScalar()\<close> and
  \<open>IsBinary()\<close>; a null pointer is \<open>None\<close>.
\<close>

record Regions =
  IsScalar :: bool
  IsBinary :: bool

datatype EMatcherType =
    BRUTE_FORCE_L2
  | ANN_L2
  | CASCADE_HASHING_L2
  | HNSW_L2
  | BRUTE_FORCE_HAMMING

text \<open>The two matcher classes \<open>main\<close> instantiates, with their constructor arguments.
  The distance ratio is a \<open>float\<close> that \<open>main\<close> only passes on; it is a rational here,
  and the default \<open>0.8f\<close> is the single precision number 13421773 / 16777216.\<close>

datatype Matcher =
    Cascade_Hashing_Matcher_Regions rat
  | Matcher_Regions rat EMatcherType

text \<open>The two provider classes \<open>main\<close> instantiates; \<open>ui_max_cache_size\<close> is an
  \<open>unsigned int\<close>.\<close>

datatype Regions_Provider =
    Regions_Provider
  | Regions_Provider_Cache "32 word"

text \<open>The variables the command line fills, with the defaults of the declarations.\<close>

record Config =
  sSfM_Data_Filename :: string
  sOutputFilename :: string
  fDistRatio :: rat
  sPredefinedPairList :: string
  sNearestMatchingMethod :: string
  bForce :: bool
  ui_max_cache_size :: "32 word"

definition default_Config :: Config where
  "default_Config =
     \<lparr> sSfM_Data_Filename = '''', sOutputFilename = '''', fDistRatio = 13421773 / 16777216,
       sPredefinedPairList = '''', sNearestMatchingMethod = ''AUTO'', bForce = False,
       ui_max_cache_size = 0 \<rparr>"

subsection \<open>The functions \<open>main\<close> calls\<close>

text \<open>
  One field per function of the library that \<open>main\<close> calls. A function that returns
  \<open>bool\<close> and fills a reference returns an \<open>option\<close>. \<open>'p\<close> is a provider after its
  \<open>load\<close>, \<open>'g\<close> is an \<open>indexedGraph\<close>. \<open>Match\<close> fills \<open>map_PutativesMatches\<close>, which is
  empty when it is called, and returns it here. The call of \<open>create_filespec\<close> with two
  arguments has the empty extension as its third. The two exporters return whether they
  wrote their file; \<open>main\<close> never looks at it.
\<close>

record ('p, 'g) Ext =
  Load_SfM_Data :: "string \<Rightarrow> SfM_Data option"
  folder_part :: "string \<Rightarrow> string"
  create_filespec :: "string \<Rightarrow> string \<Rightarrow> string \<Rightarrow> string"
  Init_region_type_from_file :: "string \<Rightarrow> Regions option"
  provider_load :: "Regions_Provider \<Rightarrow> SfM_Data \<Rightarrow> string \<Rightarrow> Regions \<Rightarrow> 'p option"
  file_exists :: "string \<Rightarrow> bool"
  Load_matches :: "string \<Rightarrow> PairWiseMatches option"
  loadPairs :: "nat \<Rightarrow> string \<Rightarrow> Pair_Set option"
  Match :: "Matcher \<Rightarrow> 'p \<Rightarrow> Pair_Set \<Rightarrow> PairWiseMatches"
  Save :: "PairWiseMatches \<Rightarrow> string \<Rightarrow> bool"
  PairWiseMatchingToAdjacencyMatrixSVG :: "nat \<Rightarrow> PairWiseMatches \<Rightarrow> string \<Rightarrow> bool"
  getPairs :: "PairWiseMatches \<Rightarrow> Pair_Set"
  indexedGraph :: "IndexT list \<Rightarrow> Pair_Set \<Rightarrow> 'g"
  exportToGraphvizData :: "string \<Rightarrow> 'g \<Rightarrow> bool"

subsection \<open>Runs\<close>

datatype 'g event =
    EvLoad_SfM_Data string
  | EvInit_region_type string
  | EvProvider_load Regions_Provider string
  | EvFile_exists string
  | EvLoad_matches string
  | EvUsing Matcher
  | EvLoadPairs nat string
  | EvMatch Matcher Pair_Set
  | EvSave PairWiseMatches string
  | EvAdjacencySVG nat PairWiseMatches string bool
  | EvGraphviz string 'g bool

text \<open>One failure per \<open>return EXIT_FAILURE\<close> of \<open>main\<close>, in the order of the source.\<close>

datatype failure =
    Invalid_command_line
  | No_input_pairs_file
  | No_output_file
  | SfM_Data_cannot_be_read
  | Invalid_regions_type_file
  | Invalid_regions
  | Cannot_load_matches
  | Invalid_nearest_neighbor_method
  | Failed_to_load_pairs
  | Cannot_save_matches

type_synonym 'g run = "'g event list \<times> (failure + PairWiseMatches)"

definition EXIT_SUCCESS :: int where
  "EXIT_SUCCESS = 0"

definition EXIT_FAILURE :: int where
  "EXIT_FAILURE = 1"

definition trace :: "'g run \<Rightarrow> 'g event list" where
  "trace r = fst r"

definition outcome :: "'g run \<Rightarrow> failure + PairWiseMatches" where
  "outcome r = snd r"

definition exit_status :: "'g run \<Rightarrow> int" where
  "exit_status r = (case snd r of Inl _ \<Rightarrow> EXIT_FAILURE | Inr _ \<Rightarrow> EXIT_SUCCESS)"

text \<open>A stage that failed stops the run; one that succeeded hands its value to the rest
  of the run, whose calls come after its own.\<close>

definition after :: "'g event list \<Rightarrow> 'g run \<Rightarrow> 'g run" where
  "after es r = (es @ fst r, snd r)"

subsection \<open>Allocating the matcher (lines 243 to 286)\<close>

definition allocate_Matcher :: "string \<Rightarrow> rat \<Rightarrow> Regions \<Rightarrow> Matcher option" where
  "allocate_Matcher method ratio regions_type =
     (if method = ''AUTO'' then
        (if IsScalar regions_type then Some (Cascade_Hashing_Matcher_Regions ratio)
         else if IsBinary regions_type then Some (Matcher_Regions ratio BRUTE_FORCE_HAMMING)
         else None)
      else if method = ''BRUTEFORCEL2'' then Some (Matcher_Regions ratio BRUTE_FORCE_L2)
      else if method = ''BRUTEFORCEHAMMING'' then Some (Matcher_Regions ratio BRUTE_FORCE_HAMMING)
      else if method = ''HNSWL2'' then Some (Matcher_Regions ratio HNSW_L2)
      else if method = ''ANNL2'' then Some (Matcher_Regions ratio ANN_L2)
      else if method = ''CASCADEHASHINGL2'' then Some (Matcher_Regions ratio CASCADE_HASHING_L2)
      else if method = ''FASTCASCADEHASHINGL2'' then Some (Cascade_Hashing_Matcher_Regions ratio)
      else None)"

subsection \<open>The stages of \<open>main\<close>\<close>

text \<open>Lines 240 to 315: the branch that computes the putative matches.\<close>

definition compute_putative_matches ::
  "('p, 'g) Ext \<Rightarrow> Config \<Rightarrow> SfM_Data \<Rightarrow> Regions \<Rightarrow> 'p \<Rightarrow> 'g run" where
  "compute_putative_matches X c sfm_data regions_type regions_provider =
     (case allocate_Matcher (sNearestMatchingMethod c) (fDistRatio c) regions_type of
        None \<Rightarrow> ([], Inl Invalid_nearest_neighbor_method)
      | Some collectionMatcher \<Rightarrow>
          after [EvUsing collectionMatcher,
                 EvLoadPairs (length (views sfm_data)) (sPredefinedPairList c)]
            (case loadPairs X (length (views sfm_data)) (sPredefinedPairList c) of
               None \<Rightarrow> ([], Inl Failed_to_load_pairs)
             | Some pairs \<Rightarrow>
                 (let map_PutativesMatches = Match X collectionMatcher regions_provider pairs
                  in after [EvMatch collectionMatcher pairs,
                            EvSave map_PutativesMatches (sOutputFilename c)]
                       (if \<not> Save X map_PutativesMatches (sOutputFilename c)
                        then ([], Inl Cannot_save_matches)
                        else ([], Inr map_PutativesMatches)))))"

text \<open>Lines 229 to 315: reload the matches when they exist and \<open>bForce\<close> is off, compute
  them otherwise. \<open>file_exists\<close> is the right operand of \<open>&&\<close>: it is not called when
  \<open>bForce\<close> is set.\<close>

definition putative_matches ::
  "('p, 'g) Ext \<Rightarrow> Config \<Rightarrow> SfM_Data \<Rightarrow> Regions \<Rightarrow> 'p \<Rightarrow> 'g run" where
  "putative_matches X c sfm_data regions_type regions_provider =
     (if \<not> bForce c then
        after [EvFile_exists (sOutputFilename c)]
          (if file_exists X (sOutputFilename c) then
             after [EvLoad_matches (sOutputFilename c)]
               (case Load_matches X (sOutputFilename c) of
                  None \<Rightarrow> ([], Inl Cannot_load_matches)
                | Some map_PutativesMatches \<Rightarrow> ([], Inr map_PutativesMatches))
           else compute_putative_matches X c sfm_data regions_type regions_provider)
      else compute_putative_matches X c sfm_data regions_type regions_provider)"

text \<open>Lines 316 to 330: the two exports, then \<open>return EXIT_SUCCESS\<close>. What the exporters
  return is logged and dropped.\<close>

definition export_diagnostics ::
  "('p, 'g) Ext \<Rightarrow> SfM_Data \<Rightarrow> string \<Rightarrow> PairWiseMatches \<Rightarrow> 'g run" where
  "export_diagnostics X sfm_data sMatchesDirectory map_PutativesMatches =
     (let svg = create_filespec X sMatchesDirectory ''PutativeAdjacencyMatrix'' ''svg'';
          set_ViewIds = map fst (views sfm_data);
          putativeGraph = indexedGraph X set_ViewIds (getPairs X map_PutativesMatches);
          dot = create_filespec X sMatchesDirectory ''putative_matches'' ''''
      in ([EvAdjacencySVG (length (views sfm_data)) map_PutativesMatches svg
             (PairWiseMatchingToAdjacencyMatrixSVG X (length (views sfm_data))
                map_PutativesMatches svg),
           EvGraphviz dot putativeGraph (exportToGraphvizData X dot putativeGraph)],
          Inr map_PutativesMatches))"

text \<open>Lines 184 to 195: the provider is chosen by the cache size.\<close>

definition make_regions_provider :: "32 word \<Rightarrow> Regions_Provider" where
  "make_regions_provider cache_size =
     (if cache_size = 0 then Regions_Provider else Regions_Provider_Cache cache_size)"

text \<open>Lines 155 to 330: everything after the checks of the two required paths.\<close>

definition load_and_match :: "('p, 'g) Ext \<Rightarrow> Config \<Rightarrow> 'g run" where
  "load_and_match X c =
     after [EvLoad_SfM_Data (sSfM_Data_Filename c)]
       (case Load_SfM_Data X (sSfM_Data_Filename c) of
          None \<Rightarrow> ([], Inl SfM_Data_cannot_be_read)
        | Some sfm_data \<Rightarrow>
            (let sMatchesDirectory = folder_part X (sOutputFilename c);
                 sImage_describer = create_filespec X sMatchesDirectory ''image_describer'' ''json''
             in after [EvInit_region_type sImage_describer]
                  (case Init_region_type_from_file X sImage_describer of
                     None \<Rightarrow> ([], Inl Invalid_regions_type_file)
                   | Some regions_type \<Rightarrow>
                       after [EvProvider_load (make_regions_provider (ui_max_cache_size c))
                                sMatchesDirectory]
                         (case provider_load X (make_regions_provider (ui_max_cache_size c))
                                 sfm_data sMatchesDirectory regions_type of
                            None \<Rightarrow> ([], Inl Invalid_regions)
                          | Some regions_provider \<Rightarrow>
                              (case putative_matches X c sfm_data regions_type regions_provider of
                                 (es, Inl e) \<Rightarrow> (es, Inl e)
                               | (es, Inr map_PutativesMatches) \<Rightarrow>
                                   after es (export_diagnostics X sfm_data sMatchesDirectory
                                               map_PutativesMatches))))))"

text \<open>\<open>main\<close>. The command line is \<open>None\<close> when \<open>argc\<close> is 1 or \<open>cmd.process\<close> throws,
  and the filled variables otherwise.\<close>

definition main :: "('p, 'g) Ext \<Rightarrow> Config option \<Rightarrow> 'g run" where
  "main X cmd =
     (case cmd of
        None \<Rightarrow> ([], Inl Invalid_command_line)
      | Some c \<Rightarrow>
          if sPredefinedPairList c = [] then ([], Inl No_input_pairs_file)
          else if sOutputFilename c = [] then ([], Inl No_output_file)
          else load_and_match X c)"

subsection \<open>Vocabulary for the statements\<close>

text \<open>The calls of the matching stage: allocating the matcher, loading the pairs,
  matching, saving the match file.\<close>

definition engine_event :: "'g event \<Rightarrow> bool" where
  "engine_event e =
     (case e of EvUsing _ \<Rightarrow> True | EvLoadPairs _ _ \<Rightarrow> True | EvMatch _ _ \<Rightarrow> True
      | EvSave _ _ \<Rightarrow> True | _ \<Rightarrow> False)"

definition export_event :: "'g event \<Rightarrow> bool" where
  "export_event e =
     (case e of EvAdjacencySVG _ _ _ _ \<Rightarrow> True | EvGraphviz _ _ _ \<Rightarrow> True | _ \<Rightarrow> False)"

text \<open>The two local constants of \<open>main\<close> that name the matches directory and the
  regions type file.\<close>

definition sMatchesDirectory :: "('p, 'g) Ext \<Rightarrow> Config \<Rightarrow> string" where
  "sMatchesDirectory X c = folder_part X (sOutputFilename c)"

definition sImage_describer :: "('p, 'g) Ext \<Rightarrow> Config \<Rightarrow> string" where
  "sImage_describer X c = create_filespec X (sMatchesDirectory X c) ''image_describer'' ''json''"

text \<open>The run gets as far as line 207: both required paths are set, and the scene, the
  regions type and the regions have loaded.\<close>

definition regions_loaded ::
  "('p, 'g) Ext \<Rightarrow> Config \<Rightarrow> SfM_Data \<Rightarrow> Regions \<Rightarrow> 'p \<Rightarrow> bool" where
  "regions_loaded X c sfm_data regions_type regions_provider \<longleftrightarrow>
     sPredefinedPairList c \<noteq> [] \<and> sOutputFilename c \<noteq> [] \<and>
     Load_SfM_Data X (sSfM_Data_Filename c) = Some sfm_data \<and>
     Init_region_type_from_file X (sImage_describer X c) = Some regions_type \<and>
     provider_load X (make_regions_provider (ui_max_cache_size c)) sfm_data
       (sMatchesDirectory X c) regions_type = Some regions_provider"

definition loading_events :: "('p, 'g) Ext \<Rightarrow> Config \<Rightarrow> 'g event list" where
  "loading_events X c =
     [EvLoad_SfM_Data (sSfM_Data_Filename c),
      EvInit_region_type (sImage_describer X c),
      EvProvider_load (make_regions_provider (ui_max_cache_size c)) (sMatchesDirectory X c)]"

text \<open>The test of line 230 and the calls it makes.\<close>

definition recomputes :: "('p, 'g) Ext \<Rightarrow> Config \<Rightarrow> bool" where
  "recomputes X c \<longleftrightarrow> bForce c \<or> \<not> file_exists X (sOutputFilename c)"

definition resume_check :: "Config \<Rightarrow> 'g event list" where
  "resume_check c = (if bForce c then [] else [EvFile_exists (sOutputFilename c)])"

text \<open>The seven selector values that lines 244 to 286 compare with.\<close>

definition method_names :: "string list" where
  "method_names =
     [''AUTO'', ''BRUTEFORCEL2'', ''BRUTEFORCEHAMMING'', ''HNSWL2'', ''ANNL2'',
      ''CASCADEHASHINGL2'', ''FASTCASCADEHASHINGL2'']"

text \<open>The graphs handed to \<open>exportToGraphvizData\<close> in a trace.\<close>

fun graphs_of :: "'g event list \<Rightarrow> 'g list" where
  "graphs_of [] = []"
| "graphs_of (EvGraphviz f g ok # es) = g # graphs_of es"
| "graphs_of (e # es) = graphs_of es"

section \<open>The collaborators, as the specification describes them\<close>

text \<open>
  The classes and functions below are called by \<open>main\<close> and defined in other files of
  the library, which are not among the sources. Each is modelled from the specification,
  and can be put in the field of \<open>Ext\<close> that \<open>main\<close> calls.
\<close>

subsection \<open>The region cache\<close>

text \<open>Modelled from the spec: the region providers, classes \<open>Regions_Provider\<close> and
  \<open>Regions_Provider_Cache\<close> (\<open>sfm_regions_provider.hpp\<close> and
  \<open>sfm_regions_provider_cache.hpp\<close> are missing). Section 4.1: two operating modes,
  selected at construction by a capacity parameter, 0 meaning unbounded (section 6). The
  resident region sets are kept most recently used first.\<close>

record 'r RegionCache =
  capacity :: nat
  catalog :: "IndexT list"
  resident :: "(IndexT \<times> 'r) list"

text \<open>Modelled from the spec: the eager load of the unbounded mode (missing, as above),
  "loads every view's RegionSet eagerly at startup"; construction fails when one of them
  cannot be loaded. The loader is the one "supplied externally" (section 6).\<close>

fun load_every :: "(IndexT \<Rightarrow> 'r option) \<Rightarrow> IndexT list \<Rightarrow> (IndexT \<times> 'r) list option" where
  "load_every loader [] = Some []"
| "load_every loader (v # vs) =
     (case loader v of
        None \<Rightarrow> None
      | Some r \<Rightarrow>
          (case load_every loader vs of
             None \<Rightarrow> None
           | Some es \<Rightarrow> Some ((v, r) # es)))"

text \<open>Modelled from the spec: the construction and priming of the cache against the
  catalog (\<open>Regions_Provider::load\<close> and \<open>Regions_Provider_Cache::load\<close> are missing).
  Section 4.1: unbounded "loads every view's RegionSet eagerly at startup"; bounded
  "lazily loads a view's RegionSet on first fetch".\<close>

definition RegionCache_construct ::
  "(IndexT \<Rightarrow> 'r option) \<Rightarrow> nat \<Rightarrow> IndexT list \<Rightarrow> 'r RegionCache option" where
  "RegionCache_construct loader C ids =
     (if C = 0 then
        (case load_every loader ids of
           None \<Rightarrow> None
         | Some es \<Rightarrow> Some \<lparr> capacity = 0, catalog = ids, resident = es \<rparr>)
      else Some \<lparr> capacity = C, catalog = ids, resident = [] \<rparr>)"

text \<open>Modelled from the spec: \<open>fetch\<close> (the providers' \<open>get\<close> is missing). Section 4.1:
  "fails with NotFound if the view id is unknown or its underlying descriptor data cannot
  be loaded/parsed" (\<open>None\<close> here). Unbounded: "a pure lookup". Bounded: "when inserting a
  new entry would exceed capacity C, evicts the least-recently-used entry first. A fetch on
  an already-cached view counts as a recency touch and evicts nothing".\<close>

definition fetch ::
  "(IndexT \<Rightarrow> 'r option) \<Rightarrow> 'r RegionCache \<Rightarrow> IndexT \<Rightarrow> 'r option \<times> 'r RegionCache" where
  "fetch loader c v =
     (if capacity c = 0 then (map_of (resident c) v, c)
      else
        (case map_of (resident c) v of
           Some r \<Rightarrow> (Some r, c\<lparr>resident := (v, r) # filter (\<lambda>e. fst e \<noteq> v) (resident c)\<rparr>)
         | None \<Rightarrow>
             if v \<notin> set (catalog c) then (None, c)
             else
               (case loader v of
                  None \<Rightarrow> (None, c)
                | Some r \<Rightarrow>
                    (Some r,
                     c\<lparr>resident :=
                         (v, r) # (if capacity c \<le> length (resident c)
                                   then butlast (resident c) else resident c)\<rparr>))))"

text \<open>Modelled from the spec: the capacity parameter of the provider that \<open>main\<close>
  constructs (the constructors of the two classes are missing). Section 6: "cache capacity
  (non-negative integer, 0 meaning unbounded)".\<close>

definition capacity_of :: "Regions_Provider \<Rightarrow> nat" where
  "capacity_of rp = (case rp of Regions_Provider \<Rightarrow> 0 | Regions_Provider_Cache C \<Rightarrow> unat C)"

text \<open>Modelled from the spec: the \<open>load\<close> of the provider that \<open>main\<close> constructs
  (missing, as above), as the construction of the cache against the view ids of the
  scene.\<close>

definition provider_load_spec ::
  "(IndexT \<Rightarrow> 'r option) \<Rightarrow> Regions_Provider \<Rightarrow> SfM_Data \<Rightarrow> 'r RegionCache option" where
  "provider_load_spec loader rp sfm_data =
     RegionCache_construct loader (capacity_of rp) (map fst (views sfm_data))"

subsection \<open>The pair source\<close>

text \<open>Modelled from the spec: the source of \<open>loadPairs\<close> (\<open>Pair_Builder.hpp\<close> is
  missing). Section 6: a "text-based enumeration of view-id pairs"; a line holds two view
  ids, or does not parse.\<close>

datatype pair_line = Ids IndexT IndexT | Malformed

text \<open>Modelled from the spec: the two failures of \<open>loadPairs\<close> (missing, as above),
  section 4.2.\<close>

datatype pair_error = InvalidPair | ParseError

text \<open>Modelled from the spec: the test on the ids of a line that \<open>loadPairs\<close> makes
  (missing, as above). Section 4.2: "any referenced id is \<ge> viewCount".\<close>

definition out_of_range :: "nat \<Rightarrow> pair_line \<Rightarrow> bool" where
  "out_of_range viewCount l =
     (case l of Ids i j \<Rightarrow> viewCount \<le> i \<or> viewCount \<le> j | Malformed \<Rightarrow> False)"

text \<open>Modelled from the spec: the canonical key of a pair (made inside \<open>loadPairs\<close>
  and \<open>Match\<close>, both missing). Section 3: "canonicalized (smaller id first) so that (a,b)
  and (b,a) denote the same key".\<close>

definition canonical :: "Pair \<Rightarrow> Pair" where
  "canonical p = (min (fst p) (snd p), max (fst p) (snd p))"

text \<open>Modelled from the spec: \<open>loadPairs\<close> (\<open>Pair_Builder.hpp\<close> is missing). Section 4.2:
  "load(viewCount, source) -> PairSet, fails with InvalidPair if any referenced id is
  \<ge> viewCount, and with ParseError if the source is malformed. Guarantees no duplicate
  canonical keys in the returned set, regardless of duplicate or order-reversed entries
  in the source." The lines are read in order and the first offending line decides the
  error.\<close>

fun load_pairs :: "nat \<Rightarrow> pair_line list \<Rightarrow> pair_error + Pair_Set" where
  "load_pairs viewCount [] = Inr []"
| "load_pairs viewCount (Malformed # ls) = Inl ParseError"
| "load_pairs viewCount (Ids i j # ls) =
     (if viewCount \<le> i \<or> viewCount \<le> j then Inl InvalidPair
      else
        (case load_pairs viewCount ls of
           Inl e \<Rightarrow> Inl e
         | Inr pairs \<Rightarrow> Inr (List.insert (canonical (i, j)) pairs)))"

text \<open>Modelled from the spec: \<open>loadPairs\<close> as \<open>main\<close> calls it (missing, as above), on a
  file name: the file cannot be read, or its lines are loaded as above; \<open>false\<close> for every
  failure.\<close>

definition loadPairs_spec ::
  "(string \<Rightarrow> pair_line list option) \<Rightarrow> nat \<Rightarrow> string \<Rightarrow> Pair_Set option" where
  "loadPairs_spec read_lines N sFileName =
     (case read_lines sFileName of
        None \<Rightarrow> None
      | Some ls \<Rightarrow> (case load_pairs N ls of Inl e \<Rightarrow> None | Inr pairs \<Rightarrow> Some pairs))"

subsection \<open>The match engine\<close>

text \<open>Modelled from the spec: \<open>Matcher::Match\<close> (\<open>Matcher_Regions.cpp\<close> and
  \<open>Cascade_Hashing_Matcher_Regions.cpp\<close> are missing). Section 4.3: "For each pair (A,B)
  in the input set, the engine obtains RegionSet(A) and RegionSet(B) via the cache. [...]
  The retained list for the pair, possibly empty, is stored under the pair's canonical key;
  pairs with zero retained correspondences are still stored (empty list)"; "a per-pair
  failure (e.g., cache miss due to missing data) degrades that pair's result to an empty
  list". The nearest neighbour search with its ratio test is \<open>nn_match\<close>, "invoked as an
  abstract capability" (section 1).\<close>

fun match_pairs ::
  "('r \<Rightarrow> 'r \<Rightarrow> IndMatches) \<Rightarrow> (IndexT \<Rightarrow> 'r option) \<Rightarrow> 'r RegionCache \<Rightarrow> Pair_Set \<Rightarrow>
   PairWiseMatches \<Rightarrow> PairWiseMatches" where
  "match_pairs nn_match loader cache [] matches = matches"
| "match_pairs nn_match loader cache (p # pairs) matches =
     (case fetch loader cache (fst p) of
        (ra, cache1) \<Rightarrow>
          (case fetch loader cache1 (snd p) of
             (rb, cache2) \<Rightarrow>
               match_pairs nn_match loader cache2 pairs
                 (AList.update (canonical p)
                    (case (ra, rb) of (Some a, Some b) \<Rightarrow> nn_match a b | _ \<Rightarrow> [])
                    matches)))"

text \<open>Modelled from the spec: \<open>Match\<close> as \<open>main\<close> calls it (missing, as above), on
  the matcher allocated and with no matches stored yet.\<close>

definition Match_spec ::
  "(Matcher \<Rightarrow> 'r \<Rightarrow> 'r \<Rightarrow> IndMatches) \<Rightarrow> (IndexT \<Rightarrow> 'r option) \<Rightarrow> Matcher \<Rightarrow>
   'r RegionCache \<Rightarrow> Pair_Set \<Rightarrow> PairWiseMatches" where
  "Match_spec nn_match loader matcher cache pairs =
     match_pairs (nn_match matcher) loader cache pairs []"

subsection \<open>The match graph\<close>

text \<open>Modelled from the spec: \<open>graph::indexedGraph\<close> (\<open>graph.hpp\<close> is missing), the data
  of a MatchGraph (section 3): nodes and edges.\<close>

record MatchGraph =
  nodes :: "IndexT list"
  edges :: "Pair list"

text \<open>Modelled from the spec: the constructor of \<open>graph::indexedGraph\<close> (missing, as
  above). Section 4.5: "every view id is a node even with zero edges".\<close>

definition indexedGraph_spec :: "IndexT list \<Rightarrow> Pair_Set \<Rightarrow> MatchGraph" where
  "indexedGraph_spec ids pairs = \<lparr> nodes = ids, edges = pairs \<rparr>"

text \<open>Modelled from the spec: \<open>getPairs\<close> (\<open>indMatch.hpp\<close> is missing), the pairs that
  \<open>main\<close> hands to the graph. Section 3: "edges = PairKeys present in PutativeMatches with
  a nonempty correspondence list".\<close>

definition getPairs_spec :: "PairWiseMatches \<Rightarrow> Pair_Set" where
  "getPairs_spec matches = map fst (filter (\<lambda>(k, ms). ms \<noteq> []) matches)"

section \<open>An example scene\<close>

text \<open>Three views, scalar regions, a match file already on disk, and the collaborators
  of the previous section. View 2 has no descriptor; the pair list names the pair of
  views 0 and 1 twice, once in each order.\<close>

definition example_views :: "(IndexT \<times> View) list" where
  "example_views =
     [(0, \<lparr>id_view = 0, s_Img_path = ''a.jpg'', ui_width = 640, ui_height = 480\<rparr>),
      (1, \<lparr>id_view = 1, s_Img_path = ''b.jpg'', ui_width = 640, ui_height = 480\<rparr>),
      (2, \<lparr>id_view = 2, s_Img_path = ''c.jpg'', ui_width = 640, ui_height = 480\<rparr>)]"

definition example_sfm_data :: SfM_Data where
  "example_sfm_data = \<lparr> s_root_path = ''images'', views = example_views \<rparr>"

definition scalar_regions :: Regions where
  "scalar_regions = \<lparr> IsScalar = True, IsBinary = False \<rparr>"

definition stored_matches :: PairWiseMatches where
  "stored_matches = [((0, 1), [(0, 0), (1, 2)]), ((1, 2), [])]"

definition example_loader :: "IndexT \<Rightarrow> nat list option" where
  "example_loader v =
     (if v = 0 then Some [10, 20, 30] else if v = 1 then Some [11, 21]
      else if v = 2 then Some [] else None)"

definition example_nn_match :: "Matcher \<Rightarrow> nat list \<Rightarrow> nat list \<Rightarrow> IndMatches" where
  "example_nn_match matcher a b = (if length b < 2 then [] else [(0, 0)])"

definition example_read_lines :: "string \<Rightarrow> pair_line list option" where
  "example_read_lines f =
     (if f = ''pairs.txt'' then Some [Ids 0 1, Ids 2 1, Ids 1 0]
      else if f = ''bad_pairs.txt'' then Some [Ids 0 1, Ids 1 7]
      else None)"

definition example_Ext :: "(nat list RegionCache, MatchGraph) Ext" where
  "example_Ext =
     \<lparr> Load_SfM_Data = (\<lambda>f. if f = ''sfm_data.json'' then Some example_sfm_data else None),
       folder_part = (\<lambda>f. ''matches''),
       create_filespec = (\<lambda>d n e. d @ ''/'' @ n @ (if e = [] then [] else ''.'' @ e)),
       Init_region_type_from_file =
         (\<lambda>f. if f = ''matches/image_describer.json'' then Some scalar_regions else None),
       provider_load = (\<lambda>rp sfm d rt. provider_load_spec example_loader rp sfm),
       file_exists = (\<lambda>f. f = ''matches/putative.bin''),
       Load_matches = (\<lambda>f. if f = ''matches/putative.bin'' then Some stored_matches else None),
       loadPairs = loadPairs_spec example_read_lines,
       Match = Match_spec example_nn_match example_loader,
       Save = (\<lambda>m f. True),
       PairWiseMatchingToAdjacencyMatrixSVG = (\<lambda>n m f. True),
       getPairs = getPairs_spec,
       indexedGraph = indexedGraph_spec,
       exportToGraphvizData = (\<lambda>f g. True) \<rparr>"

definition example_Config :: Config where
  "example_Config =
     default_Config \<lparr> sSfM_Data_Filename := ''sfm_data.json'',
       sOutputFilename := ''matches/putative.bin'', sPredefinedPairList := ''pairs.txt'' \<rparr>"

definition example_cache :: "nat list RegionCache" where
  "example_cache =
     \<lparr> capacity = 0, catalog = [0, 1, 2],
       resident = [(0, [10, 20, 30]), (1, [11, 21]), (2, [])] \<rparr>"

text \<open>The same scene with no match file on disk, and three variants of the options.\<close>

definition fresh_Ext :: "(nat list RegionCache, MatchGraph) Ext" where
  "fresh_Ext = example_Ext \<lparr> file_exists := (\<lambda>f. False) \<rparr>"

definition foo_Config :: Config where
  "foo_Config = example_Config \<lparr> sNearestMatchingMethod := ''FOO'' \<rparr>"

definition hamming_Config :: Config where
  "hamming_Config = example_Config \<lparr> sNearestMatchingMethod := ''BRUTEFORCEHAMMING'' \<rparr>"

definition bad_pairs_Config :: Config where
  "bad_pairs_Config = example_Config \<lparr> sPredefinedPairList := ''bad_pairs.txt'' \<rparr>"

definition bruteforce_Config :: Config where
  "bruteforce_Config = example_Config \<lparr> sNearestMatchingMethod := ''BRUTEFORCEL2'' \<rparr>"


definition save_fails_Ext :: "(nat list RegionCache, MatchGraph) Ext" where
  "save_fails_Ext = fresh_Ext \<lparr> Save := (\<lambda>m f. False) \<rparr>"

definition no_regions_type_Ext :: "(nat list RegionCache, MatchGraph) Ext" where
  "no_regions_type_Ext = example_Ext \<lparr> Init_region_type_from_file := (\<lambda>f. None) \<rparr>"

definition no_regions_Ext :: "(nat list RegionCache, MatchGraph) Ext" where
  "no_regions_Ext = example_Ext \<lparr> provider_load := (\<lambda>rp sfm d rt. None) \<rparr>"

section \<open>Lemmas\<close>

subsection \<open>Unfolding\<close>

lemmas aux_defs = sMatchesDirectory_def sImage_describer_def regions_loaded_def loading_events_def
  resume_check_def recomputes_def

lemmas main_defs = main_def load_and_match_def putative_matches_def compute_putative_matches_def
  export_diagnostics_def after_def trace_def outcome_def exit_status_def Let_def

lemmas example_defs = example_Ext_def example_Config_def default_Config_def example_sfm_data_def
  example_views_def scalar_regions_def stored_matches_def example_loader_def
  example_nn_match_def example_read_lines_def example_cache_def

lemmas eval_defs = aux_defs example_defs fresh_Ext_def foo_Config_def hamming_Config_def
  bad_pairs_Config_def bruteforce_Config_def save_fails_Ext_def no_regions_type_Ext_def no_regions_Ext_def
  make_regions_provider_def provider_load_spec_def capacity_of_def RegionCache_construct_def

subsection \<open>The run, branch by branch\<close>

lemma main_resumed:
  assumes "regions_loaded X c sfm rt p" and "\<not> recomputes X c"
  shows "main X (Some c) =
     (case Load_matches X (sOutputFilename c) of
        None \<Rightarrow>
          (loading_events X c @ resume_check c @ [EvLoad_matches (sOutputFilename c)],
           Inl Cannot_load_matches)
      | Some m \<Rightarrow>
          (loading_events X c @ resume_check c @ [EvLoad_matches (sOutputFilename c)] @
           fst (export_diagnostics X sfm (sMatchesDirectory X c) m), Inr m))"
  using assms
  by (simp add: main_def load_and_match_def putative_matches_def after_def aux_defs
      export_diagnostics_def Let_def split: option.splits)

lemma main_recomputed:
  assumes "regions_loaded X c sfm rt p" and "recomputes X c"
  shows "main X (Some c) =
     (case allocate_Matcher (sNearestMatchingMethod c) (fDistRatio c) rt of
        None \<Rightarrow> (loading_events X c @ resume_check c, Inl Invalid_nearest_neighbor_method)
      | Some m \<Rightarrow>
          (case loadPairs X (length (views sfm)) (sPredefinedPairList c) of
             None \<Rightarrow>
               (loading_events X c @ resume_check c @
                [EvUsing m, EvLoadPairs (length (views sfm)) (sPredefinedPairList c)],
                Inl Failed_to_load_pairs)
           | Some ps \<Rightarrow>
               if \<not> Save X (Match X m p ps) (sOutputFilename c) then
                 (loading_events X c @ resume_check c @
                  [EvUsing m, EvLoadPairs (length (views sfm)) (sPredefinedPairList c),
                   EvMatch m ps, EvSave (Match X m p ps) (sOutputFilename c)],
                  Inl Cannot_save_matches)
               else
                 (loading_events X c @ resume_check c @
                  [EvUsing m, EvLoadPairs (length (views sfm)) (sPredefinedPairList c),
                   EvMatch m ps, EvSave (Match X m p ps) (sOutputFilename c)] @
                  fst (export_diagnostics X sfm (sMatchesDirectory X c) (Match X m p ps)),
                  Inr (Match X m p ps))))"
  using assms
  by (auto simp add: main_def load_and_match_def putative_matches_def after_def aux_defs
      compute_putative_matches_def export_diagnostics_def Let_def split: option.splits)

lemma main_success_loaded:
  assumes "outcome (main X (Some c)) = Inr m"
  shows "\<exists>sfm rt p. regions_loaded X c sfm rt p"
  using assms
  by (auto simp add: main_def load_and_match_def after_def aux_defs outcome_def Let_def
      split: option.splits if_splits prod.splits sum.splits)

lemma resumed_engine_independent:
  assumes "\<not> bForce c" and "file_exists X (sOutputFilename c)"
  shows "main (X\<lparr>loadPairs := lp, Match := mt, Save := sv\<rparr>) (Some c) = main X (Some c)"
  using assms
  by (simp add: main_def load_and_match_def putative_matches_def export_diagnostics_def Let_def
      cong: option.case_cong if_cong)

lemma main_invalid_method_loaded:
  assumes "outcome (main X cmd) = Inl Invalid_nearest_neighbor_method"
  shows "\<exists>c sfm rt p. cmd = Some c \<and> regions_loaded X c sfm rt p"
  using assms
  by (auto simp add: main_def load_and_match_def after_def aux_defs outcome_def Let_def
      split: option.splits if_splits prod.splits sum.splits)

lemma allocate_none:
  "allocate_Matcher method r rt = None \<longleftrightarrow>
     method \<notin> set method_names \<or> method = ''AUTO'' \<and> \<not> IsScalar rt \<and> \<not> IsBinary rt"
  by (simp add: allocate_Matcher_def method_names_def)

subsection \<open>The exporters\<close>

lemma export_diagnostics_outcome:
  "snd (export_diagnostics X sfm d m) = Inr m"
  by (simp add: export_diagnostics_def Let_def)

lemma export_diagnostics_events:
  "filter (\<lambda>e. \<not> export_event e) (fst (export_diagnostics X sfm d m)) = []"
  by (simp add: export_diagnostics_def Let_def export_event_def)

lemma putative_matches_exporters:
  "putative_matches (X\<lparr>PairWiseMatchingToAdjacencyMatrixSVG := svg, exportToGraphvizData := dot\<rparr>)
     c sfm rt p = putative_matches X c sfm rt p"
  by (simp add: putative_matches_def compute_putative_matches_def Let_def
      cong: option.case_cong if_cong)

lemma load_and_match_exporters:
  "snd (load_and_match (X\<lparr>PairWiseMatchingToAdjacencyMatrixSVG := svg, exportToGraphvizData := dot\<rparr>) c)
     = snd (load_and_match X c) \<and>
   filter (\<lambda>e. \<not> export_event e)
     (fst (load_and_match (X\<lparr>PairWiseMatchingToAdjacencyMatrixSVG := svg, exportToGraphvizData := dot\<rparr>) c))
     = filter (\<lambda>e. \<not> export_event e) (fst (load_and_match X c))"
  by (simp add: load_and_match_def putative_matches_exporters after_def Let_def
      export_diagnostics_outcome export_diagnostics_events
      split: option.splits prod.splits sum.splits)

lemma main_exporters:
  "snd (main (X\<lparr>PairWiseMatchingToAdjacencyMatrixSVG := svg, exportToGraphvizData := dot\<rparr>) cmd)
     = snd (main X cmd) \<and>
   filter (\<lambda>e. \<not> export_event e)
     (fst (main (X\<lparr>PairWiseMatchingToAdjacencyMatrixSVG := svg, exportToGraphvizData := dot\<rparr>) cmd))
     = filter (\<lambda>e. \<not> export_event e) (fst (main X cmd))"
  by (simp add: main_def load_and_match_exporters split: option.splits)

lemma graphs_of_append: "graphs_of (xs @ ys) = graphs_of xs @ graphs_of ys"
  by (induction xs rule: graphs_of.induct) simp_all

lemma graphs_of_loading: "graphs_of (loading_events X c @ resume_check c @ es) = graphs_of es"
  by (simp add: loading_events_def resume_check_def)

lemma graphs_of_export:
  "graphs_of (fst (export_diagnostics X sfm d m)) =
     [indexedGraph X (map fst (views sfm)) (getPairs X m)]"
  by (simp add: export_diagnostics_def Let_def)

lemma main_success_graph:
  assumes "outcome (main X (Some c)) = Inr m"
    and "Load_SfM_Data X (sSfM_Data_Filename c) = Some sfm"
  shows "graphs_of (trace (main X (Some c))) =
           [indexedGraph X (map fst (views sfm)) (getPairs X m)]"
proof -
  from main_success_loaded [OF assms(1)] assms(2) obtain rt p where l: "regions_loaded X c sfm rt p"
    by (auto simp: regions_loaded_def)
  show ?thesis
  proof (cases "recomputes X c")
    case False
    from main_resumed [OF l False] assms(1) show ?thesis
      by (auto simp: outcome_def trace_def graphs_of_loading graphs_of_export
          split: option.splits)
  next
    case True
    from main_recomputed [OF l True] assms(1) show ?thesis
      by (auto simp: outcome_def trace_def graphs_of_loading graphs_of_export
          split: option.splits if_splits)
  qed
qed

lemma getPairs_spec_facts:
  assumes "distinct (map fst m)"
  shows "distinct (getPairs_spec m)"
    and "length (getPairs_spec m) = length (filter (\<lambda>(k, ms). ms \<noteq> []) m)"
    and "set (getPairs_spec m) = {k. \<exists>ms. map_of m k = Some ms \<and> ms \<noteq> []}"
proof -
  show "distinct (getPairs_spec m)"
    unfolding getPairs_spec_def using assms by (rule distinct_map_filter)
  show "length (getPairs_spec m) = length (filter (\<lambda>(k, ms). ms \<noteq> []) m)"
    by (simp add: getPairs_spec_def)
  show "set (getPairs_spec m) = {k. \<exists>ms. map_of m k = Some ms \<and> ms \<noteq> []}"
    using assms by (auto simp: getPairs_spec_def image_iff)
qed

subsection \<open>The region cache\<close>









subsection \<open>The pair source\<close>

lemma load_pairs_Inr:
  "load_pairs N ls = Inr ps \<Longrightarrow>
     distinct ps \<and> set ps = {canonical (i, j) |i j. Ids i j \<in> set ls} \<and>
     Malformed \<notin> set ls \<and> (\<forall>l \<in> set ls. \<not> out_of_range N l)"
proof (induction N ls arbitrary: ps rule: load_pairs.induct)
  case (1 viewCount)
  then show ?case by simp
next
  case (2 viewCount ls)
  then show ?case by simp
next
  case (3 viewCount i j ls)
  from "3.prems" have r: "\<not> (viewCount \<le> i \<or> viewCount \<le> j)"
    by (auto split: if_splits)
  with "3.prems" obtain qs where qs: "load_pairs viewCount ls = Inr qs"
    and ps: "ps = List.insert (canonical (i, j)) qs"
    by (auto split: sum.splits)
  from "3.IH" [OF r qs] have ih: "distinct qs"
    "set qs = {canonical (i, j) |i j. Ids i j \<in> set ls}"
    "Malformed \<notin> set ls" "\<forall>l \<in> set ls. \<not> out_of_range viewCount l"
    by simp_all
  from ih(1) ps have "distinct ps" by simp
  moreover from ih(2) ps have "set ps = {canonical (i', j') |i' j'. Ids i' j' \<in> set (Ids i j # ls)}"
    by auto
  moreover from ih(3) have "Malformed \<notin> set (Ids i j # ls)" by simp
  moreover from ih(4) r have "\<forall>l \<in> set (Ids i j # ls). \<not> out_of_range viewCount l"
    by (simp add: out_of_range_def)
  ultimately show ?case by blast
qed

lemma load_pairs_InvalidPair:
  "load_pairs N ls = Inl InvalidPair \<Longrightarrow> \<exists>l \<in> set ls. out_of_range N l"
  by (induction N ls rule: load_pairs.induct)
     (auto simp: out_of_range_def split: if_splits sum.splits)

lemma load_pairs_ParseError:
  "load_pairs N ls = Inl ParseError \<Longrightarrow> Malformed \<in> set ls"
  by (induction N ls rule: load_pairs.induct)
     (auto split: if_splits sum.splits)

lemma canonical_idem: "fst p \<le> snd p \<Longrightarrow> canonical p = p"
  by (simp add: canonical_def)

subsection \<open>The match engine\<close>

lemma match_pairs_Cons:
  "\<exists>v cache'. match_pairs K L cache (p # ps) acc =
      match_pairs K L cache' ps (AList.update (canonical p) v acc) \<and>
      ((\<forall>a b. K a b = []) \<longrightarrow> v = [])"
proof -
  obtain ra c1 where f1: "fetch L cache (fst p) = (ra, c1)"
    by (cases "fetch L cache (fst p)")
  obtain rb c2 where f2: "fetch L c1 (snd p) = (rb, c2)"
    by (cases "fetch L c1 (snd p)")
  let ?v = "case (ra, rb) of (Some a, Some b) \<Rightarrow> K a b | _ \<Rightarrow> []"
  have "match_pairs K L cache (p # ps) acc =
      match_pairs K L c2 ps (AList.update (canonical p) ?v acc)"
    by (simp add: f1 f2)
  moreover have "(\<forall>a b. K a b = []) \<longrightarrow> ?v = []"
    by (simp split: option.splits)
  ultimately show ?thesis by blast
qed

lemma match_pairs_keys:
  "fst ` set (match_pairs K L cache ps acc) = fst ` set acc \<union> canonical ` set ps"
proof (induction ps arbitrary: cache acc)
  case Nil
  then show ?case by simp
next
  case (Cons p ps)
  from match_pairs_Cons [of K L cache p ps acc] obtain v cache' where
    "match_pairs K L cache (p # ps) acc =
       match_pairs K L cache' ps (AList.update (canonical p) v acc)"
    by blast
  then show ?case
    by (simp add: Cons.IH dom_update Un_ac)
qed

lemma match_pairs_distinct:
  "distinct (map fst acc) \<Longrightarrow> distinct (map fst (match_pairs K L cache ps acc))"
proof (induction ps arbitrary: cache acc)
  case Nil
  then show ?case by simp
next
  case (Cons p ps)
  from match_pairs_Cons [of K L cache p ps acc] obtain v cache' where
    "match_pairs K L cache (p # ps) acc =
       match_pairs K L cache' ps (AList.update (canonical p) v acc)"
    by blast
  with Cons show ?case
    by (simp add: distinct_update)
qed

lemma update_all_empty:
  "\<forall>e \<in> set acc. snd e = [] \<Longrightarrow> \<forall>e \<in> set (AList.update k [] acc). snd e = []"
  by (induction acc) auto

lemma match_pairs_all_empty:
  assumes "\<forall>a b. K a b = []"
  shows "\<forall>e \<in> set acc. snd e = [] \<Longrightarrow> \<forall>e \<in> set (match_pairs K L cache ps acc). snd e = []"
proof (induction ps arbitrary: cache acc)
  case Nil
  then show ?case by simp
next
  case (Cons p ps)
  from match_pairs_Cons [of K L cache p ps acc] assms obtain cache' where
    "match_pairs K L cache (p # ps) acc =
       match_pairs K L cache' ps (AList.update (canonical p) [] acc)"
    by blast
  with Cons.IH [OF update_all_empty [OF Cons.prems]] show ?case
    by simp
qed

subsection \<open>The example scene\<close>

lemma example_loaded:
  "regions_loaded example_Ext example_Config example_sfm_data scalar_regions example_cache"
  by (simp add: aux_defs example_defs make_regions_provider_def provider_load_spec_def
      capacity_of_def RegionCache_construct_def)

lemma example_resumes: "\<not> recomputes example_Ext example_Config"
  by (simp add: recomputes_def example_defs)

lemma fresh_recomputes: "recomputes fresh_Ext c"
  by (simp add: recomputes_def fresh_Ext_def)

lemma fresh_loaded:
  "regions_loaded fresh_Ext example_Config example_sfm_data scalar_regions example_cache"
  "regions_loaded fresh_Ext foo_Config example_sfm_data scalar_regions example_cache"
  "regions_loaded fresh_Ext hamming_Config example_sfm_data scalar_regions example_cache"
  "regions_loaded fresh_Ext bad_pairs_Config example_sfm_data scalar_regions example_cache"
  by (simp_all add: eval_defs)

lemma foo_loaded:
  "regions_loaded example_Ext foo_Config example_sfm_data scalar_regions example_cache"
  by (simp add: eval_defs)

lemma example_pairs: "load_pairs 3 [Ids 0 1, Ids 2 1, Ids 1 0] = Inr [(1, 2), (0, 1)]"
  by (simp add: canonical_def)

lemma example_loadPairs:
  "loadPairs fresh_Ext (length (views example_sfm_data)) ''pairs.txt'' = Some [(1, 2), (0, 1)]"
  by (simp add: eval_defs loadPairs_spec_def canonical_def)

lemma example_Match:
  "Match_spec example_nn_match example_loader m example_cache [(1, 2), (0, 1)] =
     [((1, 2), []), ((0, 1), [(0, 0)])]"
  by (simp add: Match_spec_def fetch_def example_cache_def example_nn_match_def canonical_def)

lemma example_main:
  "main example_Ext (Some example_Config) =
    ([EvLoad_SfM_Data ''sfm_data.json'', EvInit_region_type ''matches/image_describer.json'',
      EvProvider_load Regions_Provider ''matches'', EvFile_exists ''matches/putative.bin'',
      EvLoad_matches ''matches/putative.bin'',
      EvAdjacencySVG 3 stored_matches ''matches/PutativeAdjacencyMatrix.svg'' True,
      EvGraphviz ''matches/putative_matches'' \<lparr>nodes = [0, 1, 2], edges = [(0, 1)]\<rparr> True],
     Inr stored_matches)"
  by (simp add: main_resumed [OF example_loaded example_resumes])
     (simp add: aux_defs example_defs export_diagnostics_def make_regions_provider_def
        getPairs_spec_def indexedGraph_spec_def)

lemma fresh_main:
  "main fresh_Ext (Some example_Config) =
    ([EvLoad_SfM_Data ''sfm_data.json'', EvInit_region_type ''matches/image_describer.json'',
      EvProvider_load Regions_Provider ''matches'', EvFile_exists ''matches/putative.bin'',
      EvUsing (Cascade_Hashing_Matcher_Regions (13421773 / 16777216)), EvLoadPairs 3 ''pairs.txt'',
      EvMatch (Cascade_Hashing_Matcher_Regions (13421773 / 16777216)) [(1, 2), (0, 1)],
      EvSave [((1, 2), []), ((0, 1), [(0, 0)])] ''matches/putative.bin'',
      EvAdjacencySVG 3 [((1, 2), []), ((0, 1), [(0, 0)])]
        ''matches/PutativeAdjacencyMatrix.svg'' True,
      EvGraphviz ''matches/putative_matches'' \<lparr>nodes = [0, 1, 2], edges = [(0, 1)]\<rparr> True],
     Inr [((1, 2), []), ((0, 1), [(0, 0)])])"
proof -
  have a: "allocate_Matcher (sNearestMatchingMethod example_Config) (fDistRatio example_Config)
             scalar_regions = Some (Cascade_Hashing_Matcher_Regions (13421773 / 16777216))"
    by (simp add: allocate_Matcher_def eval_defs)
  have p: "sPredefinedPairList example_Config = ''pairs.txt''"
    by (simp add: eval_defs)
  have m: "Match fresh_Ext mt example_cache [(1, 2), (0, 1)] =
             [((1, 2), []), ((0, 1), [(0, 0)])]" for mt
    by (simp add: fresh_Ext_def example_Ext_def example_Match del: One_nat_def)
  have s: "Save fresh_Ext ms f" for ms f
    by (simp add: eval_defs)
  have "main fresh_Ext (Some example_Config) =
     (loading_events fresh_Ext example_Config @ resume_check example_Config @
      [EvUsing (Cascade_Hashing_Matcher_Regions (13421773 / 16777216)),
       EvLoadPairs (length (views example_sfm_data)) ''pairs.txt'',
       EvMatch (Cascade_Hashing_Matcher_Regions (13421773 / 16777216)) [(1, 2), (0, 1)],
       EvSave [((1, 2), []), ((0, 1), [(0, 0)])] (sOutputFilename example_Config)] @
      fst (export_diagnostics fresh_Ext example_sfm_data
             (sMatchesDirectory fresh_Ext example_Config) [((1, 2), []), ((0, 1), [(0, 0)])]),
      Inr [((1, 2), []), ((0, 1), [(0, 0)])])"
    by (simp add: main_recomputed [OF fresh_loaded(1) fresh_recomputes] a p example_loadPairs
          m s del: One_nat_def)
  then show ?thesis
    by (simp add: eval_defs export_diagnostics_def getPairs_spec_def indexedGraph_spec_def)
qed

section \<open>Resuming from an existing match file\<close>

text \<open>
  C1: if the match file exists at the output path and \<open>bForce\<close> is false, the run makes
  none of the calls of the matching stage (no matcher is allocated, the pair list is not
  loaded, nothing is matched, and the match file is not saved again), and the matches it
  ends with are the ones loaded from that file. When the scene and the regions load and
  the file loads, the calls of the run are exactly the three loads, the test of the file,
  its load and the two diagnostics, and the run exits with success. The run is the same
  whatever the pair list, the matcher and \<open>Save\<close> would have done. The match file is
  written by \<open>Save\<close> only: a second run against the same file does no matching work and
  leaves the match file as it found it.
\<close>

theorem resumed_run_adopts_existing_matches:
  assumes "\<not> bForce c" and "file_exists X (sOutputFilename c)"
  shows "list_all (\<lambda>e. \<not> engine_event e) (trace (main X (Some c))) \<and>
    (\<forall>m. outcome (main X (Some c)) = Inr m \<longrightarrow> Load_matches X (sOutputFilename c) = Some m) \<and>
    (\<forall>sfm rt p m. regions_loaded X c sfm rt p \<and> Load_matches X (sOutputFilename c) = Some m \<longrightarrow>
       main X (Some c) =
         (loading_events X c @
          [EvFile_exists (sOutputFilename c), EvLoad_matches (sOutputFilename c)] @
          trace (export_diagnostics X sfm (sMatchesDirectory X c) m), Inr m) \<and>
       exit_status (main X (Some c)) = EXIT_SUCCESS) \<and>
    main (X\<lparr>loadPairs := lp, Match := mt, Save := sv\<rparr>) (Some c) = main X (Some c)"
proof -
  have calls: "list_all (\<lambda>e. \<not> engine_event e) (trace (main X (Some c))) \<and>
    (\<forall>m. outcome (main X (Some c)) = Inr m \<longrightarrow> Load_matches X (sOutputFilename c) = Some m) \<and>
    (\<forall>sfm rt p m. regions_loaded X c sfm rt p \<and> Load_matches X (sOutputFilename c) = Some m \<longrightarrow>
       main X (Some c) =
         (loading_events X c @
          [EvFile_exists (sOutputFilename c), EvLoad_matches (sOutputFilename c)] @
          trace (export_diagnostics X sfm (sMatchesDirectory X c) m), Inr m) \<and>
       exit_status (main X (Some c)) = EXIT_SUCCESS)"
    using assms
    by (auto simp add: main_defs aux_defs engine_event_def
        split: option.splits sum.splits prod.splits)
  have same: "main (X\<lparr>loadPairs := lp, Match := mt, Save := sv\<rparr>) (Some c) = main X (Some c)"
    using assms by (rule resumed_engine_independent)
  show ?thesis
    by (rule conjI [OF calls [THEN conjunct1]
          conjI [OF calls [THEN conjunct2, THEN conjunct1]
            conjI [OF calls [THEN conjunct2, THEN conjunct2] same]]])
qed

theorem resumed_run_adopts_existing_matches_witness:
  "\<not> bForce example_Config \<and> file_exists example_Ext (sOutputFilename example_Config) \<and>
   Load_matches example_Ext (sOutputFilename example_Config) = Some stored_matches \<and>
   list_all (\<lambda>e. \<not> engine_event e) (trace (main example_Ext (Some example_Config))) \<and>
   main example_Ext (Some example_Config) =
     ([EvLoad_SfM_Data ''sfm_data.json'', EvInit_region_type ''matches/image_describer.json'',
       EvProvider_load Regions_Provider ''matches'', EvFile_exists ''matches/putative.bin'',
       EvLoad_matches ''matches/putative.bin'',
       EvAdjacencySVG 3 stored_matches ''matches/PutativeAdjacencyMatrix.svg'' True,
       EvGraphviz ''matches/putative_matches'' \<lparr>nodes = [0, 1, 2], edges = [(0, 1)]\<rparr> True],
      Inr stored_matches) \<and>
   exit_status (main example_Ext (Some example_Config)) = EXIT_SUCCESS"
proof -
  have f: "\<not> bForce example_Config"
    by (simp add: example_defs)
  have e: "file_exists example_Ext (sOutputFilename example_Config)"
    by (simp add: example_defs)
  have l: "Load_matches example_Ext (sOutputFilename example_Config) = Some stored_matches"
    by (simp add: example_defs)
  note r = resumed_run_adopts_existing_matches [OF f e]
  note n = r [THEN conjunct1]
  from r [THEN conjunct2, THEN conjunct2, THEN conjunct1] example_loaded l
  have m: "main example_Ext (Some example_Config) =
         (loading_events example_Ext example_Config @
          [EvFile_exists (sOutputFilename example_Config),
           EvLoad_matches (sOutputFilename example_Config)] @
          trace (export_diagnostics example_Ext example_sfm_data
                   (sMatchesDirectory example_Ext example_Config) stored_matches),
          Inr stored_matches)"
    and x: "exit_status (main example_Ext (Some example_Config)) = EXIT_SUCCESS"
    by blast+
  have v: "(loading_events example_Ext example_Config @
          [EvFile_exists (sOutputFilename example_Config),
           EvLoad_matches (sOutputFilename example_Config)] @
          trace (export_diagnostics example_Ext example_sfm_data
                   (sMatchesDirectory example_Ext example_Config) stored_matches)) =
     [EvLoad_SfM_Data ''sfm_data.json'', EvInit_region_type ''matches/image_describer.json'',
       EvProvider_load Regions_Provider ''matches'', EvFile_exists ''matches/putative.bin'',
       EvLoad_matches ''matches/putative.bin'',
       EvAdjacencySVG 3 stored_matches ''matches/PutativeAdjacencyMatrix.svg'' True,
       EvGraphviz ''matches/putative_matches'' \<lparr>nodes = [0, 1, 2], edges = [(0, 1)]\<rparr> True]"
    by (simp add: eval_defs export_diagnostics_def trace_def getPairs_spec_def
        indexedGraph_spec_def)
  from f e l n x m [unfolded v] show ?thesis
    by blast
qed

section \<open>The method selector\<close>

text \<open>
  C2, as the code has it: \<open>main\<close> rejects a selector exactly when it is none of the seven
  names it knows, or is \<open>AUTO\<close> while the regions type is neither scalar nor binary; a known
  name other than \<open>AUTO\<close> is accepted whatever the regions type. The check is made on the
  branch that computes the matches, after the scene, the regions type and the regions have
  been loaded: a run that gets there with such a selector has made those three loads (and
  the test of the match file, unless \<open>bForce\<close> is set) and nothing else, and it fails
  with a nonzero status, before the pair list is read, before any matching and before
  anything is written.

  In full: no matcher is allocated exactly for those selectors. A run whose scene, regions
  type and regions have loaded stops on the invalid method exactly when it computes the
  matches (\<open>bForce\<close> set, or no match file) and the selector is one of those; no run stops
  on the invalid method before those three loads. With any other selector, a run that
  computes the matches allocates the matcher and goes on to load the pair list.
\<close>

theorem invalid_method_rejected_after_loading:
  "(allocate_Matcher selector r rt = None \<longleftrightarrow>
      selector \<notin> set method_names \<or> selector = ''AUTO'' \<and> \<not> IsScalar rt \<and> \<not> IsBinary rt) \<and>
   (regions_loaded X c sfm rt p \<and> recomputes X c \<and>
    (sNearestMatchingMethod c \<notin> set method_names \<or>
     sNearestMatchingMethod c = ''AUTO'' \<and> \<not> IsScalar rt \<and> \<not> IsBinary rt) \<longrightarrow>
      main X (Some c) = (loading_events X c @ resume_check c, Inl Invalid_nearest_neighbor_method) \<and>
      exit_status (main X (Some c)) = EXIT_FAILURE) \<and>
   (regions_loaded X c sfm rt p \<longrightarrow>
      (outcome (main X (Some c)) = Inl Invalid_nearest_neighbor_method \<longleftrightarrow>
         recomputes X c \<and>
         (sNearestMatchingMethod c \<notin> set method_names \<or>
          sNearestMatchingMethod c = ''AUTO'' \<and> \<not> IsScalar rt \<and> \<not> IsBinary rt))) \<and>
   (outcome (main X cmd) = Inl Invalid_nearest_neighbor_method \<longrightarrow>
      (\<exists>c' sfm' rt' p'. cmd = Some c' \<and> regions_loaded X c' sfm' rt' p')) \<and>
   (regions_loaded X c sfm rt p \<and> recomputes X c \<and>
    \<not> (sNearestMatchingMethod c \<notin> set method_names \<or>
       sNearestMatchingMethod c = ''AUTO'' \<and> \<not> IsScalar rt \<and> \<not> IsBinary rt) \<longrightarrow>
      (\<exists>m. allocate_Matcher (sNearestMatchingMethod c) (fDistRatio c) rt = Some m \<and>
           take 2 (drop (length (loading_events X c @ resume_check c))
                     (trace (main X (Some c)))) =
             [EvUsing m, EvLoadPairs (length (views sfm)) (sPredefinedPairList c)]))"
proof (intro conjI impI)
  show "allocate_Matcher selector r rt = None \<longleftrightarrow>
      selector \<notin> set method_names \<or> selector = ''AUTO'' \<and> \<not> IsScalar rt \<and> \<not> IsBinary rt"
    by (rule allocate_none)
next
  assume a: "regions_loaded X c sfm rt p \<and> recomputes X c \<and>
    (sNearestMatchingMethod c \<notin> set method_names \<or>
     sNearestMatchingMethod c = ''AUTO'' \<and> \<not> IsScalar rt \<and> \<not> IsBinary rt)"
  then have n: "allocate_Matcher (sNearestMatchingMethod c) (fDistRatio c) rt = None"
    by (simp add: allocate_none)
  from a main_recomputed [of X c sfm rt p] n
  show m: "main X (Some c) =
      (loading_events X c @ resume_check c, Inl Invalid_nearest_neighbor_method)"
    by simp
  show "exit_status (main X (Some c)) = EXIT_FAILURE"
    by (simp add: m exit_status_def)
next
  assume l: "regions_loaded X c sfm rt p"
  show "outcome (main X (Some c)) = Inl Invalid_nearest_neighbor_method \<longleftrightarrow>
         recomputes X c \<and>
         (sNearestMatchingMethod c \<notin> set method_names \<or>
          sNearestMatchingMethod c = ''AUTO'' \<and> \<not> IsScalar rt \<and> \<not> IsBinary rt)"
  proof (cases "recomputes X c")
    case True
    have "outcome (main X (Some c)) = Inl Invalid_nearest_neighbor_method \<longleftrightarrow>
          allocate_Matcher (sNearestMatchingMethod c) (fDistRatio c) rt = None"
      by (simp add: main_recomputed [OF l True] outcome_def split: option.splits)
    with True show ?thesis
      by (simp add: allocate_none)
  next
    case False
    have "outcome (main X (Some c)) \<noteq> Inl Invalid_nearest_neighbor_method"
      by (simp add: main_resumed [OF l False] outcome_def split: option.splits)
    with False show ?thesis
      by simp
  qed
next
  assume "outcome (main X cmd) = Inl Invalid_nearest_neighbor_method"
  then show "\<exists>c' sfm' rt' p'. cmd = Some c' \<and> regions_loaded X c' sfm' rt' p'"
    by (rule main_invalid_method_loaded)
next
  assume a: "regions_loaded X c sfm rt p \<and> recomputes X c \<and>
    \<not> (sNearestMatchingMethod c \<notin> set method_names \<or>
       sNearestMatchingMethod c = ''AUTO'' \<and> \<not> IsScalar rt \<and> \<not> IsBinary rt)"
  then have "allocate_Matcher (sNearestMatchingMethod c) (fDistRatio c) rt \<noteq> None"
    by (simp add: allocate_none)
  then obtain m where m: "allocate_Matcher (sNearestMatchingMethod c) (fDistRatio c) rt = Some m"
    by auto
  from a have l: "regions_loaded X c sfm rt p" and r: "recomputes X c"
    by simp_all
  have "take 2 (drop (length (loading_events X c @ resume_check c))
                     (trace (main X (Some c)))) =
             [EvUsing m, EvLoadPairs (length (views sfm)) (sPredefinedPairList c)]"
    by (simp add: main_recomputed [OF l r] m trace_def split: option.splits)
  with m show "\<exists>m. allocate_Matcher (sNearestMatchingMethod c) (fDistRatio c) rt = Some m \<and>
           take 2 (drop (length (loading_events X c @ resume_check c))
                     (trace (main X (Some c)))) =
             [EvUsing m, EvLoadPairs (length (views sfm)) (sPredefinedPairList c)]"
    by blast
qed

theorem invalid_method_rejected_after_loading_witness:
  "sNearestMatchingMethod foo_Config \<notin> set method_names \<and>
   allocate_Matcher ''FOO'' (13421773 / 16777216) scalar_regions = None \<and>
   main fresh_Ext (Some foo_Config) =
     ([EvLoad_SfM_Data ''sfm_data.json'', EvInit_region_type ''matches/image_describer.json'',
       EvProvider_load Regions_Provider ''matches'', EvFile_exists ''matches/putative.bin''],
      Inl Invalid_nearest_neighbor_method) \<and>
   exit_status (main fresh_Ext (Some foo_Config)) = EXIT_FAILURE \<and>
   outcome (main fresh_Ext (Some foo_Config)) = Inl Invalid_nearest_neighbor_method \<and>
   outcome (main fresh_Ext (Some hamming_Config)) \<noteq> Inl Invalid_nearest_neighbor_method \<and>
   outcome (main example_Ext (Some foo_Config)) \<noteq> Inl Invalid_nearest_neighbor_method"
proof -
  have n: "sNearestMatchingMethod foo_Config \<notin> set method_names"
    by (simp add: method_names_def foo_Config_def)
  have f: "''FOO'' \<notin> set method_names"
    by (simp add: method_names_def)
  note t = invalid_method_rejected_after_loading
    [where selector = "''FOO''" and r = "13421773 / 16777216" and rt = scalar_regions and X = fresh_Ext
       and c = foo_Config and sfm = example_sfm_data and p = example_cache]
  note h = invalid_method_rejected_after_loading
    [where rt = scalar_regions and X = fresh_Ext and c = hamming_Config
       and sfm = example_sfm_data and p = example_cache]
  note e = invalid_method_rejected_after_loading
    [where rt = scalar_regions and X = example_Ext and c = foo_Config
       and sfm = example_sfm_data and p = example_cache]
  from t [THEN conjunct1] f
  have a: "allocate_Matcher ''FOO'' (13421773 / 16777216) scalar_regions = None"
    by simp
  have bad: "regions_loaded fresh_Ext foo_Config example_sfm_data scalar_regions example_cache \<and>
      recomputes fresh_Ext foo_Config \<and>
      (sNearestMatchingMethod foo_Config \<notin> set method_names \<or>
       sNearestMatchingMethod foo_Config = ''AUTO'' \<and> \<not> IsScalar scalar_regions \<and>
       \<not> IsBinary scalar_regions)"
    using fresh_loaded(2) fresh_recomputes [of foo_Config] n by simp
  note run = t [THEN conjunct2, THEN conjunct1, THEN mp, OF bad]
  have m: "main fresh_Ext (Some foo_Config) =
     ([EvLoad_SfM_Data ''sfm_data.json'', EvInit_region_type ''matches/image_describer.json'',
       EvProvider_load Regions_Provider ''matches'', EvFile_exists ''matches/putative.bin''],
      Inl Invalid_nearest_neighbor_method)"
    using run [THEN conjunct1] by (simp add: eval_defs)
  note x = run [THEN conjunct2]
  have o: "outcome (main fresh_Ext (Some foo_Config)) = Inl Invalid_nearest_neighbor_method"
    using t [THEN conjunct2, THEN conjunct2, THEN conjunct1, THEN mp, OF fresh_loaded(2)] bad
    by simp
  have known: "\<not> (sNearestMatchingMethod hamming_Config \<notin> set method_names \<or>
       sNearestMatchingMethod hamming_Config = ''AUTO'' \<and> \<not> IsScalar scalar_regions \<and>
       \<not> IsBinary scalar_regions)"
    by (simp add: hamming_Config_def method_names_def)
  have k: "outcome (main fresh_Ext (Some hamming_Config)) \<noteq> Inl Invalid_nearest_neighbor_method"
    using h [THEN conjunct2, THEN conjunct2, THEN conjunct1, THEN mp, OF fresh_loaded(3)] known
    by simp
  have "\<not> recomputes example_Ext foo_Config"
    by (simp add: eval_defs)
  with e [THEN conjunct2, THEN conjunct2, THEN conjunct1, THEN mp, OF foo_loaded]
  have z: "outcome (main example_Ext (Some foo_Config)) \<noteq> Inl Invalid_nearest_neighbor_method"
    by simp
  from n a m x o k z show ?thesis
    by (intro conjI)
qed

text \<open>
  C2 as it is written fails twice on the example scene with no match file. With the
  unknown selector \<open>FOO\<close> the run fails, but only after it has loaded the scene and the
  regions. With \<open>BRUTEFORCEHAMMING\<close> on scalar regions, a selector for binary descriptors,
  \<open>main\<close> allocates the matcher, matches and exits with success.
\<close>

theorem invalid_method_counterexample:
  "sNearestMatchingMethod foo_Config \<notin> set method_names \<and>
   exit_status (main fresh_Ext (Some foo_Config)) = EXIT_FAILURE \<and>
   EvLoad_SfM_Data ''sfm_data.json'' \<in> set (trace (main fresh_Ext (Some foo_Config))) \<and>
   EvProvider_load Regions_Provider ''matches'' \<in> set (trace (main fresh_Ext (Some foo_Config))) \<and>
   sNearestMatchingMethod hamming_Config = ''BRUTEFORCEHAMMING'' \<and>
   Init_region_type_from_file fresh_Ext (sImage_describer fresh_Ext hamming_Config) =
     Some scalar_regions \<and>
   IsScalar scalar_regions \<and> \<not> IsBinary scalar_regions \<and>
   exit_status (main fresh_Ext (Some hamming_Config)) = EXIT_SUCCESS \<and>
   EvMatch (Matcher_Regions (13421773 / 16777216) BRUTE_FORCE_HAMMING) [(1, 2), (0, 1)]
     \<in> set (trace (main fresh_Ext (Some hamming_Config)))"
proof -
  have a: "allocate_Matcher (sNearestMatchingMethod foo_Config) (fDistRatio foo_Config)
             scalar_regions = None"
    by (simp add: allocate_Matcher_def foo_Config_def)
  have foo: "main fresh_Ext (Some foo_Config) =
      (loading_events fresh_Ext foo_Config @ resume_check foo_Config,
       Inl Invalid_nearest_neighbor_method)"
    by (simp add: main_recomputed [OF fresh_loaded(2) fresh_recomputes] a)
  have b: "allocate_Matcher (sNearestMatchingMethod hamming_Config) (fDistRatio hamming_Config)
             scalar_regions = Some (Matcher_Regions (13421773 / 16777216) BRUTE_FORCE_HAMMING)"
    by (simp add: allocate_Matcher_def eval_defs)
  have p: "sPredefinedPairList hamming_Config = ''pairs.txt''"
    by (simp add: eval_defs)
  have s: "Save fresh_Ext m f" for m f
    by (simp add: eval_defs)
  have ham: "main fresh_Ext (Some hamming_Config) =
     (loading_events fresh_Ext hamming_Config @ resume_check hamming_Config @
      [EvUsing (Matcher_Regions (13421773 / 16777216) BRUTE_FORCE_HAMMING),
       EvLoadPairs (length (views example_sfm_data)) ''pairs.txt'',
       EvMatch (Matcher_Regions (13421773 / 16777216) BRUTE_FORCE_HAMMING) [(1, 2), (0, 1)],
       EvSave (Match fresh_Ext (Matcher_Regions (13421773 / 16777216) BRUTE_FORCE_HAMMING) example_cache
                 [(1, 2), (0, 1)]) (sOutputFilename hamming_Config)] @
      fst (export_diagnostics fresh_Ext example_sfm_data
             (sMatchesDirectory fresh_Ext hamming_Config)
             (Match fresh_Ext (Matcher_Regions (13421773 / 16777216) BRUTE_FORCE_HAMMING) example_cache
                [(1, 2), (0, 1)])),
      Inr (Match fresh_Ext (Matcher_Regions (13421773 / 16777216) BRUTE_FORCE_HAMMING) example_cache
             [(1, 2), (0, 1)]))"
    by (simp add: main_recomputed [OF fresh_loaded(3) fresh_recomputes] b p example_loadPairs s)
  show ?thesis
    by (simp add: foo ham trace_def exit_status_def)
       (simp add: eval_defs method_names_def)
qed

section \<open>The matcher that \<open>AUTO\<close> selects\<close>



section \<open>The regions provider\<close>



section \<open>The pair list\<close>

text \<open>
  C5: loading the pair list with the number of views fails when a line names a view id
  that is not below the number of views (\<open>InvalidPair\<close>, when no line is malformed) or
  when a line is malformed (\<open>ParseError\<close>, when no id is out of range), and fails with
  one of the two when both occur. When it succeeds, the pairs returned are the canonical
  keys of the lines, each once, smaller id first. When \<open>main\<close> calls it, on the branch
  that computes the matches, and it fails, the run stops there with a nonzero status:
  the last call of the run is the load of the pairs, so nothing is matched and nothing
  is saved.
\<close>

theorem pair_list_failure_aborts_run:
  "((\<exists>l \<in> set ls. out_of_range N l) \<or> Malformed \<in> set ls \<longrightarrow>
      load_pairs N ls = Inl InvalidPair \<or> load_pairs N ls = Inl ParseError) \<and>
   ((\<exists>l \<in> set ls. out_of_range N l) \<and> Malformed \<notin> set ls \<longrightarrow>
      load_pairs N ls = Inl InvalidPair) \<and>
   (Malformed \<in> set ls \<and> \<not> (\<exists>l \<in> set ls. out_of_range N l) \<longrightarrow>
      load_pairs N ls = Inl ParseError) \<and>
   (\<forall>ps. load_pairs N ls = Inr ps \<longrightarrow>
      distinct ps \<and> set ps = {canonical (i, j) |i j. Ids i j \<in> set ls} \<and>
      (\<forall>p \<in> set ps. fst p \<le> snd p)) \<and>
   (regions_loaded X c sfm rt p \<and> recomputes X c \<and>
    allocate_Matcher (sNearestMatchingMethod c) (fDistRatio c) rt = Some m \<and>
    loadPairs X = loadPairs_spec read_lines \<and> read_lines (sPredefinedPairList c) = Some ls \<and>
    N = length (views sfm) \<and> (\<exists>e. load_pairs N ls = Inl e) \<longrightarrow>
      main X (Some c) =
        (loading_events X c @ resume_check c @
         [EvUsing m, EvLoadPairs (length (views sfm)) (sPredefinedPairList c)],
         Inl Failed_to_load_pairs) \<and>
      exit_status (main X (Some c)) = EXIT_FAILURE)"
proof (intro conjI impI allI)
  have bad: "\<exists>e. load_pairs N ls = Inl e"
    if "(\<exists>l \<in> set ls. out_of_range N l) \<or> Malformed \<in> set ls"
  proof (cases "load_pairs N ls")
    case (Inl e)
    then show ?thesis by simp
  next
    case (Inr ps)
    from load_pairs_Inr [OF this] that show ?thesis by blast
  qed
  {
    assume "(\<exists>l \<in> set ls. out_of_range N l) \<or> Malformed \<in> set ls"
    from bad [OF this] obtain e where "load_pairs N ls = Inl e" ..
    then show "load_pairs N ls = Inl InvalidPair \<or> load_pairs N ls = Inl ParseError"
      by (cases e) simp_all
  }
  {
    assume a: "(\<exists>l \<in> set ls. out_of_range N l) \<and> Malformed \<notin> set ls"
    with bad obtain e where e: "load_pairs N ls = Inl e" by blast
    with a load_pairs_ParseError [of N ls] show "load_pairs N ls = Inl InvalidPair"
      by (cases e) auto
  }
  {
    assume a: "Malformed \<in> set ls \<and> \<not> (\<exists>l \<in> set ls. out_of_range N l)"
    with bad obtain e where e: "load_pairs N ls = Inl e" by blast
    with a load_pairs_InvalidPair [of N ls] show "load_pairs N ls = Inl ParseError"
      by (cases e) auto
  }
  {
    fix ps assume r: "load_pairs N ls = Inr ps"
    from load_pairs_Inr [OF r] show "distinct ps"
      and s: "set ps = {canonical (i, j) |i j. Ids i j \<in> set ls}" by simp_all
    from s show "\<forall>p \<in> set ps. fst p \<le> snd p"
      by (auto simp: canonical_def)
  }
  {
    assume a: "regions_loaded X c sfm rt p \<and> recomputes X c \<and>
      allocate_Matcher (sNearestMatchingMethod c) (fDistRatio c) rt = Some m \<and>
      loadPairs X = loadPairs_spec read_lines \<and> read_lines (sPredefinedPairList c) = Some ls \<and>
      N = length (views sfm) \<and> (\<exists>e. load_pairs N ls = Inl e)"
    then have n: "loadPairs X (length (views sfm)) (sPredefinedPairList c) = None"
      by (auto simp: loadPairs_spec_def)
    from a main_recomputed [of X c sfm rt p] n
    show r: "main X (Some c) =
        (loading_events X c @ resume_check c @
         [EvUsing m, EvLoadPairs (length (views sfm)) (sPredefinedPairList c)],
         Inl Failed_to_load_pairs)"
      by simp
    show "exit_status (main X (Some c)) = EXIT_FAILURE"
      by (simp add: r exit_status_def)
  }
qed

theorem pair_list_failure_aborts_run_witness:
  "load_pairs 3 [Ids 0 1, Ids 1 7] = Inl InvalidPair \<and>
   load_pairs 3 [Ids 0 1, Malformed] = Inl ParseError \<and>
   load_pairs 3 [Ids 0 1, Ids 2 1, Ids 1 0] = Inr [(1, 2), (0, 1)] \<and>
   distinct [(1, 2), (0 :: nat, 1 :: nat)] \<and>
   main fresh_Ext (Some bad_pairs_Config) =
     ([EvLoad_SfM_Data ''sfm_data.json'', EvInit_region_type ''matches/image_describer.json'',
       EvProvider_load Regions_Provider ''matches'', EvFile_exists ''matches/putative.bin'',
       EvUsing (Cascade_Hashing_Matcher_Regions (13421773 / 16777216)), EvLoadPairs 3 ''bad_pairs.txt''],
      Inl Failed_to_load_pairs) \<and>
   exit_status (main fresh_Ext (Some bad_pairs_Config)) = EXIT_FAILURE"
proof -
  note bad = pair_list_failure_aborts_run
    [of "[Ids 0 1, Ids 1 7]" 3 fresh_Ext bad_pairs_Config example_sfm_data scalar_regions
        example_cache "Cascade_Hashing_Matcher_Regions (13421773 / 16777216)" example_read_lines]
  note mal = pair_list_failure_aborts_run
    [of "[Ids 0 1, Malformed]" 3 fresh_Ext bad_pairs_Config example_sfm_data scalar_regions
        example_cache "Cascade_Hashing_Matcher_Regions (13421773 / 16777216)" example_read_lines]
  note good = pair_list_failure_aborts_run
    [of "[Ids 0 1, Ids 2 1, Ids 1 0]" 3 fresh_Ext bad_pairs_Config example_sfm_data
        scalar_regions example_cache "Cascade_Hashing_Matcher_Regions (13421773 / 16777216)"
        example_read_lines]
  have o: "(\<exists>l \<in> set [Ids 0 1, Ids 1 7]. out_of_range 3 l) \<and> Malformed \<notin> set [Ids 0 1, Ids 1 7]"
    by (simp add: out_of_range_def)
  with bad have i: "load_pairs 3 [Ids 0 1, Ids 1 7] = Inl InvalidPair"
    by blast
  have "Malformed \<in> set [Ids 0 1, Malformed] \<and>
        \<not> (\<exists>l \<in> set [Ids 0 1, Malformed]. out_of_range 3 l)"
    by (simp add: out_of_range_def)
  with mal have p: "load_pairs 3 [Ids 0 1, Malformed] = Inl ParseError"
    by blast
  from good example_pairs have d: "distinct [(1, 2), (0 :: nat, 1 :: nat)]"
    by blast
  have "regions_loaded fresh_Ext bad_pairs_Config example_sfm_data scalar_regions example_cache
      \<and> recomputes fresh_Ext bad_pairs_Config \<and>
      allocate_Matcher (sNearestMatchingMethod bad_pairs_Config) (fDistRatio bad_pairs_Config)
        scalar_regions = Some (Cascade_Hashing_Matcher_Regions (13421773 / 16777216)) \<and>
      loadPairs fresh_Ext = loadPairs_spec example_read_lines \<and>
      example_read_lines (sPredefinedPairList bad_pairs_Config) = Some [Ids 0 1, Ids 1 7] \<and>
      3 = length (views example_sfm_data) \<and> (\<exists>e. load_pairs 3 [Ids 0 1, Ids 1 7] = Inl e)"
    using fresh_loaded(4) fresh_recomputes [of bad_pairs_Config] i
    by (simp add: eval_defs allocate_Matcher_def)
  with bad have "main fresh_Ext (Some bad_pairs_Config) =
        (loading_events fresh_Ext bad_pairs_Config @ resume_check bad_pairs_Config @
         [EvUsing (Cascade_Hashing_Matcher_Regions (13421773 / 16777216)),
          EvLoadPairs (length (views example_sfm_data)) (sPredefinedPairList bad_pairs_Config)],
         Inl Failed_to_load_pairs)"
    and x: "exit_status (main fresh_Ext (Some bad_pairs_Config)) = EXIT_FAILURE"
    by blast+
  then have "main fresh_Ext (Some bad_pairs_Config) =
     ([EvLoad_SfM_Data ''sfm_data.json'', EvInit_region_type ''matches/image_describer.json'',
       EvProvider_load Regions_Provider ''matches'', EvFile_exists ''matches/putative.bin'',
       EvUsing (Cascade_Hashing_Matcher_Regions (13421773 / 16777216)), EvLoadPairs 3 ''bad_pairs.txt''],
      Inl Failed_to_load_pairs)"
    by (simp add: eval_defs)
  with i p d x example_pairs show ?thesis
    by blast
qed

section \<open>Saving and exporting\<close>

text \<open>
  C6: when the save of the computed matches fails, the run stops with a nonzero status
  and exports nothing. What the two exporters of the diagnostics return has no effect on
  the run: with any other exporters in their place, the run ends with the same failure or
  the same matches, exits with the same status and makes the same calls apart from the
  exports. In particular a run whose two exports fail still exits with success.
\<close>

theorem save_failure_fatal_export_failure_ignored:
  "(regions_loaded X c sfm rt p \<and> recomputes X c \<and>
    allocate_Matcher (sNearestMatchingMethod c) (fDistRatio c) rt = Some m \<and>
    loadPairs X (length (views sfm)) (sPredefinedPairList c) = Some ps \<and>
    \<not> Save X (Match X m p ps) (sOutputFilename c) \<longrightarrow>
      outcome (main X (Some c)) = Inl Cannot_save_matches \<and>
      exit_status (main X (Some c)) = EXIT_FAILURE \<and>
      list_all (\<lambda>e. \<not> export_event e) (trace (main X (Some c)))) \<and>
   outcome (main (X\<lparr>PairWiseMatchingToAdjacencyMatrixSVG := svg, exportToGraphvizData := dot\<rparr>) cmd)
     = outcome (main X cmd) \<and>
   exit_status (main (X\<lparr>PairWiseMatchingToAdjacencyMatrixSVG := svg, exportToGraphvizData := dot\<rparr>) cmd)
     = exit_status (main X cmd) \<and>
   filter (\<lambda>e. \<not> export_event e)
     (trace (main (X\<lparr>PairWiseMatchingToAdjacencyMatrixSVG := svg, exportToGraphvizData := dot\<rparr>) cmd))
     = filter (\<lambda>e. \<not> export_event e) (trace (main X cmd))"
proof (intro conjI impI)
  assume a: "regions_loaded X c sfm rt p \<and> recomputes X c \<and>
    allocate_Matcher (sNearestMatchingMethod c) (fDistRatio c) rt = Some m \<and>
    loadPairs X (length (views sfm)) (sPredefinedPairList c) = Some ps \<and>
    \<not> Save X (Match X m p ps) (sOutputFilename c)"
  with main_recomputed [of X c sfm rt p]
  have r: "main X (Some c) =
     (loading_events X c @ resume_check c @
                  [EvUsing m, EvLoadPairs (length (views sfm)) (sPredefinedPairList c),
                   EvMatch m ps, EvSave (Match X m p ps) (sOutputFilename c)],
                  Inl Cannot_save_matches)"
    by simp
  show "outcome (main X (Some c)) = Inl Cannot_save_matches"
    by (simp add: r outcome_def)
  show "exit_status (main X (Some c)) = EXIT_FAILURE"
    by (simp add: r exit_status_def)
  show "list_all (\<lambda>e. \<not> export_event e) (trace (main X (Some c)))"
    by (simp add: r trace_def loading_events_def resume_check_def export_event_def)
next
  show "outcome (main (X\<lparr>PairWiseMatchingToAdjacencyMatrixSVG := svg, exportToGraphvizData := dot\<rparr>) cmd)
     = outcome (main X cmd)"
    by (simp add: outcome_def main_exporters)
  show "exit_status (main (X\<lparr>PairWiseMatchingToAdjacencyMatrixSVG := svg, exportToGraphvizData := dot\<rparr>) cmd)
     = exit_status (main X cmd)"
    by (simp add: exit_status_def main_exporters)
  show "filter (\<lambda>e. \<not> export_event e)
     (trace (main (X\<lparr>PairWiseMatchingToAdjacencyMatrixSVG := svg, exportToGraphvizData := dot\<rparr>) cmd))
     = filter (\<lambda>e. \<not> export_event e) (trace (main X cmd))"
    by (simp add: trace_def main_exporters)
qed

theorem save_failure_fatal_export_failure_ignored_witness:
  "\<not> Save save_fails_Ext [((1, 2), []), ((0, 1), [(0, 0)])] (sOutputFilename example_Config) \<and>
   outcome (main save_fails_Ext (Some example_Config)) = Inl Cannot_save_matches \<and>
   exit_status (main save_fails_Ext (Some example_Config)) = EXIT_FAILURE \<and>
   outcome (main (fresh_Ext\<lparr>PairWiseMatchingToAdjacencyMatrixSVG := (\<lambda>n m f. False),
                             exportToGraphvizData := (\<lambda>f g. False)\<rparr>) (Some example_Config))
     = Inr [((1, 2), []), ((0, 1), [(0, 0)])] \<and>
   exit_status (main (fresh_Ext\<lparr>PairWiseMatchingToAdjacencyMatrixSVG := (\<lambda>n m f. False),
                                 exportToGraphvizData := (\<lambda>f g. False)\<rparr>) (Some example_Config))
     = EXIT_SUCCESS"
proof -
  note t = save_failure_fatal_export_failure_ignored
    [where X = save_fails_Ext and c = example_Config and sfm = example_sfm_data
       and rt = scalar_regions and p = example_cache
       and m = "Cascade_Hashing_Matcher_Regions (13421773 / 16777216)" and ps = "[(1, 2), (0, 1)]"]
  note e = save_failure_fatal_export_failure_ignored
    [where X = fresh_Ext and svg = "\<lambda>n m f. False" and dot = "\<lambda>f g. False"
       and cmd = "Some example_Config"]
  have s: "\<not> Save save_fails_Ext ms f" for ms f
    by (simp add: eval_defs)
  have "regions_loaded save_fails_Ext example_Config example_sfm_data scalar_regions
          example_cache \<and>
        recomputes save_fails_Ext example_Config \<and>
        allocate_Matcher (sNearestMatchingMethod example_Config) (fDistRatio example_Config)
          scalar_regions = Some (Cascade_Hashing_Matcher_Regions (13421773 / 16777216)) \<and>
        loadPairs save_fails_Ext (length (views example_sfm_data))
          (sPredefinedPairList example_Config) = Some [(1, 2), (0, 1)] \<and>
        \<not> Save save_fails_Ext
            (Match save_fails_Ext (Cascade_Hashing_Matcher_Regions (13421773 / 16777216)) example_cache
               [(1, 2), (0, 1)]) (sOutputFilename example_Config)"
    by (simp add: eval_defs allocate_Matcher_def loadPairs_spec_def canonical_def)
  with t have a: "outcome (main save_fails_Ext (Some example_Config)) = Inl Cannot_save_matches"
    and b: "exit_status (main save_fails_Ext (Some example_Config)) = EXIT_FAILURE"
    by blast+
  from e have "outcome (main (fresh_Ext\<lparr>PairWiseMatchingToAdjacencyMatrixSVG := (\<lambda>n m f. False),
                             exportToGraphvizData := (\<lambda>f g. False)\<rparr>) (Some example_Config))
     = outcome (main fresh_Ext (Some example_Config))"
    and "exit_status (main (fresh_Ext\<lparr>PairWiseMatchingToAdjacencyMatrixSVG := (\<lambda>n m f. False),
                                 exportToGraphvizData := (\<lambda>f g. False)\<rparr>) (Some example_Config))
     = exit_status (main fresh_Ext (Some example_Config))"
    by blast+
  then have c: "outcome (main (fresh_Ext\<lparr>PairWiseMatchingToAdjacencyMatrixSVG := (\<lambda>n m f. False),
                             exportToGraphvizData := (\<lambda>f g. False)\<rparr>) (Some example_Config))
     = Inr [((1, 2), []), ((0, 1), [(0, 0)])]"
    and d: "exit_status (main (fresh_Ext\<lparr>PairWiseMatchingToAdjacencyMatrixSVG := (\<lambda>n m f. False),
                                 exportToGraphvizData := (\<lambda>f g. False)\<rparr>) (Some example_Config))
     = EXIT_SUCCESS"
    by (simp_all add: fresh_main outcome_def exit_status_def)
  from s a b c d show ?thesis
    by (intro conjI)
qed

section \<open>The exported graph\<close>

text \<open>
  C7: with the graph built as the specification describes, a run that ends with matches
  \<open>m\<close> on a scene hands exactly one graph to the graph export. Its nodes are the view ids
  of the scene, each once, so there are as many nodes as views, whether or not a view has
  matches. Its edges are the pair keys of \<open>m\<close> whose list of matches is not empty, each
  once, so there are as many edges as such keys. The view ids of a scene and the keys of
  the matches are the keys of maps: they are taken distinct.
\<close>

theorem exported_graph_nodes_and_edges:
  assumes "getPairs X = getPairs_spec" and "indexedGraph X = indexedGraph_spec"
    and "Load_SfM_Data X (sSfM_Data_Filename c) = Some sfm"
    and "outcome (main X (Some c)) = Inr m"
    and "distinct (map fst (views sfm))" and "distinct (map fst m)"
  shows "\<exists>g. graphs_of (trace (main X (Some c))) = [g] \<and>
           set (nodes g) = fst ` set (views sfm) \<and> distinct (nodes g) \<and>
           length (nodes g) = length (views sfm) \<and>
           set (edges g) = {k. \<exists>ms. map_of m k = Some ms \<and> ms \<noteq> []} \<and> distinct (edges g) \<and>
           length (edges g) = length (filter (\<lambda>(k, ms). ms \<noteq> []) m)"
proof -
  let ?g = "indexedGraph_spec (map fst (views sfm)) (getPairs_spec m)"
  from main_success_graph [OF assms(4) assms(3)] assms(1,2)
  have "graphs_of (trace (main X (Some c))) = [?g]" by simp
  moreover have "set (nodes ?g) = fst ` set (views sfm)" "distinct (nodes ?g)"
    "length (nodes ?g) = length (views sfm)"
    using assms(5) by (simp_all add: indexedGraph_spec_def)
  moreover have "set (edges ?g) = {k. \<exists>ms. map_of m k = Some ms \<and> ms \<noteq> []}"
    "distinct (edges ?g)" "length (edges ?g) = length (filter (\<lambda>(k, ms). ms \<noteq> []) m)"
    using getPairs_spec_facts [OF assms(6)] by (simp_all add: indexedGraph_spec_def)
  ultimately show ?thesis by blast
qed

theorem exported_graph_nodes_and_edges_witness:
  "outcome (main example_Ext (Some example_Config)) = Inr stored_matches \<and>
   map_of stored_matches (1, 2) = Some [] \<and>
   graphs_of (trace (main example_Ext (Some example_Config))) =
     [\<lparr>nodes = [0, 1, 2], edges = [(0, 1)]\<rparr>] \<and>
   length (views example_sfm_data) = 3 \<and>
   length (filter (\<lambda>(k, ms). ms \<noteq> []) stored_matches) = 1"
proof -
  have o: "outcome (main example_Ext (Some example_Config)) = Inr stored_matches"
    by (simp add: example_main outcome_def)
  have g: "graphs_of (trace (main example_Ext (Some example_Config))) =
     [\<lparr>nodes = [0, 1, 2], edges = [(0, 1)]\<rparr>]"
    by (simp add: example_main trace_def)
  have "getPairs example_Ext = getPairs_spec" "indexedGraph example_Ext = indexedGraph_spec"
    "Load_SfM_Data example_Ext (sSfM_Data_Filename example_Config) = Some example_sfm_data"
    "distinct (map fst (views example_sfm_data))" "distinct (map fst stored_matches)"
    by (simp_all add: example_defs)
  from exported_graph_nodes_and_edges [OF this(1) this(2) this(3) o this(4) this(5)]
  obtain h where "graphs_of (trace (main example_Ext (Some example_Config))) = [h]"
    and "length (nodes h) = length (views example_sfm_data)"
    and "length (edges h) = length (filter (\<lambda>(k, ms). ms \<noteq> []) stored_matches)"
    by blast
  with g have "length (views example_sfm_data) = 3"
    and "length (filter (\<lambda>(k, ms). ms \<noteq> []) stored_matches) = 1"
    by simp_all
  moreover have "map_of stored_matches (1, 2) = Some []"
    by (simp add: stored_matches_def)
  ultimately show ?thesis
    using o g by (intro conjI)
qed

section \<open>The keys of the computed matches\<close>

text \<open>
  C8: with the match engine as the specification describes it, the keys of the matches
  it returns are exactly the canonical keys of the pairs it was given, each once: a pair
  that was not given has no entry, and every pair given has one. For pairs given smaller
  id first, as the pair source returns them, the keys are the pairs themselves. A pair
  for which nothing is retained is stored with the empty list. A run of \<open>main\<close> that
  computes and saves the matches ends with what the engine returned.
\<close>

theorem attempted_pairs_are_stored:
  "fst ` set (Match_spec nn L m cache ps) = canonical ` set ps \<and>
   distinct (map fst (Match_spec nn L m cache ps)) \<and>
   ((\<forall>p \<in> set ps. fst p \<le> snd p) \<longrightarrow> fst ` set (Match_spec nn L m cache ps) = set ps) \<and>
   ((\<forall>a b. nn m a b = []) \<longrightarrow>
      (\<forall>p \<in> set ps. map_of (Match_spec nn L m cache ps) (canonical p) = Some [])) \<and>
   (regions_loaded X c sfm rt cache \<and> recomputes X c \<and>
    allocate_Matcher (sNearestMatchingMethod c) (fDistRatio c) rt = Some m \<and>
    loadPairs X (length (views sfm)) (sPredefinedPairList c) = Some ps \<and>
    Match X = Match_spec nn L \<and>
    Save X (Match_spec nn L m cache ps) (sOutputFilename c) \<longrightarrow>
      outcome (main X (Some c)) = Inr (Match_spec nn L m cache ps))"
proof (intro conjI impI ballI)
  show k: "fst ` set (Match_spec nn L m cache ps) = canonical ` set ps"
    by (simp add: Match_spec_def match_pairs_keys)
  show d: "distinct (map fst (Match_spec nn L m cache ps))"
    by (simp add: Match_spec_def match_pairs_distinct)
  {
    assume "\<forall>p \<in> set ps. fst p \<le> snd p"
    then have "canonical ` set ps = set ps"
      by (auto simp: canonical_idem image_iff)
    with k show "fst ` set (Match_spec nn L m cache ps) = set ps" by simp
  }
  {
    fix p assume e: "\<forall>a b. nn m a b = []" and p: "p \<in> set ps"
    from p k have "canonical p \<in> fst ` set (Match_spec nn L m cache ps)" by blast
    then obtain ms where ms: "(canonical p, ms) \<in> set (Match_spec nn L m cache ps)"
      by auto
    from match_pairs_all_empty [of "nn m" "[]" L cache ps] e ms have "ms = []"
      by (auto simp: Match_spec_def)
    with ms d show "map_of (Match_spec nn L m cache ps) (canonical p) = Some []"
      by simp
  }
  {
    assume a: "regions_loaded X c sfm rt cache \<and> recomputes X c \<and>
      allocate_Matcher (sNearestMatchingMethod c) (fDistRatio c) rt = Some m \<and>
      loadPairs X (length (views sfm)) (sPredefinedPairList c) = Some ps \<and>
      Match X = Match_spec nn L \<and>
      Save X (Match_spec nn L m cache ps) (sOutputFilename c)"
    with main_recomputed [of X c sfm rt cache]
    show "outcome (main X (Some c)) = Inr (Match_spec nn L m cache ps)"
      by (simp add: outcome_def)
  }
qed

theorem attempted_pairs_are_stored_witness:
  "fst ` set (Match_spec example_nn_match example_loader (Matcher_Regions (13421773 / 16777216) BRUTE_FORCE_L2)
               example_cache [(0, 1), (1, 2)]) = {(0, 1), (1, 2)} \<and>
   (0, 2) \<notin> fst ` set (Match_spec example_nn_match example_loader
                          (Matcher_Regions (13421773 / 16777216) BRUTE_FORCE_L2) example_cache
                          [(0, 1), (1, 2)]) \<and>
   map_of (Match_spec (\<lambda>m a b. []) example_loader (Matcher_Regions (13421773 / 16777216) BRUTE_FORCE_L2)
             example_cache [(0, 1), (1, 2)]) (1, 2) = Some [] \<and>
   outcome (main fresh_Ext (Some bruteforce_Config)) =
     Inr (Match_spec example_nn_match example_loader (Matcher_Regions (13421773 / 16777216) BRUTE_FORCE_L2)
            example_cache [(1, 2), (0, 1)]) \<and>
   Match_spec example_nn_match example_loader (Matcher_Regions (13421773 / 16777216) BRUTE_FORCE_L2)
     example_cache [(1, 2), (0, 1)] = [((1, 2), []), ((0, 1), [(0, 0)])]"
proof -
  let ?m = "Matcher_Regions (13421773 / 16777216) BRUTE_FORCE_L2"
  note k = attempted_pairs_are_stored
    [of example_nn_match example_loader ?m example_cache "[(0, 1), (1, 2)]"
        fresh_Ext bruteforce_Config example_sfm_data scalar_regions]
  note z = attempted_pairs_are_stored
    [of "\<lambda>m a b. []" example_loader ?m example_cache "[(0, 1), (1, 2)]"
        fresh_Ext bruteforce_Config example_sfm_data scalar_regions]
  note r = attempted_pairs_are_stored
    [of example_nn_match example_loader ?m example_cache "[(1, 2), (0, 1)]"
        fresh_Ext bruteforce_Config example_sfm_data scalar_regions]
  have o: "\<forall>p \<in> set [(0 :: nat, 1 :: nat), (1, 2)]. fst p \<le> snd p"
    by simp
  from k o have a: "fst ` set (Match_spec example_nn_match example_loader ?m example_cache
                                 [(0, 1), (1, 2)]) = set [(0, 1), (1, 2)]"
    by blast
  have "\<forall>a b. (\<lambda>m a b. []) ?m a b = ([] :: IndMatches)"
    by simp
  with z have ball: "\<forall>p \<in> set [(0 :: nat, 1 :: nat), (1, 2)].
      map_of (Match_spec (\<lambda>m a b. []) example_loader ?m example_cache [(0, 1), (1, 2)])
        (canonical p) = Some []"
    by blast
  have ci: "canonical (1 :: nat, 2 :: nat) = (1, 2)"
    by (simp add: canonical_def)
  have mem: "(1 :: nat, 2 :: nat) \<in> set [(0, 1), (1, 2)]"
    by simp
  from bspec [OF ball mem]
  have b: "map_of (Match_spec (\<lambda>m a b. []) example_loader ?m example_cache
                     [(0, 1), (1, 2)]) (1, 2) = Some []"
    unfolding ci .
  have "regions_loaded fresh_Ext bruteforce_Config example_sfm_data scalar_regions example_cache
      \<and> recomputes fresh_Ext bruteforce_Config \<and>
      allocate_Matcher (sNearestMatchingMethod bruteforce_Config) (fDistRatio bruteforce_Config)
        scalar_regions = Some ?m \<and>
      loadPairs fresh_Ext (length (views example_sfm_data))
        (sPredefinedPairList bruteforce_Config) = Some [(1, 2), (0, 1)] \<and>
      Match fresh_Ext = Match_spec example_nn_match example_loader \<and>
      Save fresh_Ext (Match_spec example_nn_match example_loader ?m example_cache
                        [(1, 2), (0, 1)]) (sOutputFilename bruteforce_Config)"
    by (simp add: eval_defs allocate_Matcher_def loadPairs_spec_def canonical_def)
  with r have c: "outcome (main fresh_Ext (Some bruteforce_Config)) =
     Inr (Match_spec example_nn_match example_loader ?m example_cache [(1, 2), (0, 1)])"
    by blast
  from a b c example_Match [of ?m] show ?thesis
    by (simp del: One_nat_def)
qed

section \<open>The method selector on a resumed run\<close>

text \<open>
  C9: when the match file exists and \<open>bForce\<close> is false, the method selector is never
  looked at: the run with any selector \<open>s\<close> is the run with the original one, call for
  call. So when the scene, the regions and the match file load, the run ends with the
  loaded matches and exits with success whatever the selector is, also one that no
  matcher could be allocated for; it makes none of the calls of the matching stage.
\<close>

theorem resumed_run_ignores_method:
  assumes "\<not> bForce c" and "file_exists X (sOutputFilename c)"
  shows "main X (Some (c\<lparr>sNearestMatchingMethod := s\<rparr>)) = main X (Some c) \<and>
    (\<forall>sfm rt p m. regions_loaded X c sfm rt p \<and> Load_matches X (sOutputFilename c) = Some m \<longrightarrow>
       outcome (main X (Some (c\<lparr>sNearestMatchingMethod := s\<rparr>))) = Inr m \<and>
       exit_status (main X (Some (c\<lparr>sNearestMatchingMethod := s\<rparr>))) = EXIT_SUCCESS \<and>
       list_all (\<lambda>e. \<not> engine_event e) (trace (main X (Some (c\<lparr>sNearestMatchingMethod := s\<rparr>)))))"
  using assms
  by (auto simp add: main_defs aux_defs engine_event_def split: option.splits sum.splits prod.splits)

theorem resumed_run_ignores_method_witness:
  "\<not> bForce example_Config \<and> file_exists example_Ext (sOutputFilename example_Config) \<and>
   foo_Config = example_Config\<lparr>sNearestMatchingMethod := ''FOO''\<rparr> \<and>
   allocate_Matcher (sNearestMatchingMethod foo_Config) (fDistRatio foo_Config) scalar_regions
     = None \<and>
   main example_Ext (Some foo_Config) = main example_Ext (Some example_Config) \<and>
   outcome (main example_Ext (Some foo_Config)) = Inr stored_matches \<and>
   exit_status (main example_Ext (Some foo_Config)) = EXIT_SUCCESS"
proof -
  have f: "\<not> bForce example_Config"
    by (simp add: example_defs)
  have e: "file_exists example_Ext (sOutputFilename example_Config)"
    by (simp add: example_defs)
  have l: "Load_matches example_Ext (sOutputFilename example_Config) = Some stored_matches"
    by (simp add: example_defs)
  have n: "allocate_Matcher (sNearestMatchingMethod foo_Config) (fDistRatio foo_Config)
             scalar_regions = None"
    by (simp add: allocate_Matcher_def foo_Config_def)
  note r = resumed_run_ignores_method [OF f e, of "''FOO''"]
  from r have a: "main example_Ext (Some foo_Config) = main example_Ext (Some example_Config)"
    unfolding foo_Config_def by (rule conjunct1)
  from r [THEN conjunct2, rule_format, of example_sfm_data scalar_regions example_cache
            stored_matches] example_loaded l
  have "outcome (main example_Ext (Some foo_Config)) = Inr stored_matches"
    and "exit_status (main example_Ext (Some foo_Config)) = EXIT_SUCCESS"
    unfolding foo_Config_def by simp_all
  with f e n a show ?thesis
    by (simp add: foo_Config_def)
qed

section \<open>The regions are loaded before the resume test\<close>

text \<open>
  C10: the regions type file and the regions are loaded before the test for an existing
  match file. With both required paths set and the scene loaded, a run whose regions type
  file cannot be read, or whose regions cannot be loaded, stops there with a nonzero
  status, whatever \<open>bForce\<close> is and whether or not the match file exists: the match file
  is neither tested nor loaded. In any run that tests or loads the match file, the scene,
  the regions type and the regions have loaded, and those are its first three calls. Yet
  the matches that a resumed run ends with are the ones of the file, whatever the regions
  type and the provider are.
\<close>

theorem regions_load_before_resume_check:
  assumes "sPredefinedPairList c \<noteq> []" and "sOutputFilename c \<noteq> []"
    and "Load_SfM_Data X (sSfM_Data_Filename c) = Some sfm"
  shows
    "(Init_region_type_from_file X (sImage_describer X c) = None \<longrightarrow>
        main X (Some c) =
          ([EvLoad_SfM_Data (sSfM_Data_Filename c), EvInit_region_type (sImage_describer X c)],
           Inl Invalid_regions_type_file) \<and>
        exit_status (main X (Some c)) = EXIT_FAILURE) \<and>
     (\<forall>rt. Init_region_type_from_file X (sImage_describer X c) = Some rt \<and>
           provider_load X (make_regions_provider (ui_max_cache_size c)) sfm
              (sMatchesDirectory X c) rt = None \<longrightarrow>
        main X (Some c) = (loading_events X c, Inl Invalid_regions) \<and>
        exit_status (main X (Some c)) = EXIT_FAILURE) \<and>
     (\<forall>f. EvFile_exists f \<in> set (trace (main X (Some c))) \<or>
          EvLoad_matches f \<in> set (trace (main X (Some c))) \<longrightarrow>
        (\<exists>rt p. regions_loaded X c sfm rt p \<and>
           take 3 (trace (main X (Some c))) = loading_events X c)) \<and>
     (\<forall>rt p m. regions_loaded X c sfm rt p \<and> \<not> recomputes X c \<and>
           Load_matches X (sOutputFilename c) = Some m \<longrightarrow>
        outcome (main X (Some c)) = Inr m)"
proof (intro conjI allI impI)
  assume "Init_region_type_from_file X (sImage_describer X c) = None"
  with assms show "main X (Some c) =
          ([EvLoad_SfM_Data (sSfM_Data_Filename c), EvInit_region_type (sImage_describer X c)],
           Inl Invalid_regions_type_file)"
    by (simp add: main_def load_and_match_def after_def aux_defs Let_def)
  then show "exit_status (main X (Some c)) = EXIT_FAILURE"
    by (simp add: exit_status_def)
next
  fix rt
  assume "Init_region_type_from_file X (sImage_describer X c) = Some rt \<and>
           provider_load X (make_regions_provider (ui_max_cache_size c)) sfm
              (sMatchesDirectory X c) rt = None"
  with assms show "main X (Some c) = (loading_events X c, Inl Invalid_regions)"
    by (simp add: main_def load_and_match_def after_def aux_defs Let_def)
  then show "exit_status (main X (Some c)) = EXIT_FAILURE"
    by (simp add: exit_status_def)
next
  fix f
  assume "EvFile_exists f \<in> set (trace (main X (Some c))) \<or>
          EvLoad_matches f \<in> set (trace (main X (Some c)))"
  with assms show "\<exists>rt p. regions_loaded X c sfm rt p \<and>
           take 3 (trace (main X (Some c))) = loading_events X c"
    by (auto simp add: main_def load_and_match_def after_def aux_defs trace_def Let_def
        split: option.splits sum.splits prod.splits)
next
  fix rt p m
  assume "regions_loaded X c sfm rt p \<and> \<not> recomputes X c \<and>
           Load_matches X (sOutputFilename c) = Some m"
  with main_resumed [of X c sfm rt p] show "outcome (main X (Some c)) = Inr m"
    by (simp add: outcome_def)
qed

theorem regions_load_before_resume_check_witness:
  "\<not> bForce example_Config \<and>
   file_exists no_regions_type_Ext (sOutputFilename example_Config) \<and>
   file_exists no_regions_Ext (sOutputFilename example_Config) \<and>
   main no_regions_type_Ext (Some example_Config) =
     ([EvLoad_SfM_Data ''sfm_data.json'', EvInit_region_type ''matches/image_describer.json''],
      Inl Invalid_regions_type_file) \<and>
   exit_status (main no_regions_type_Ext (Some example_Config)) = EXIT_FAILURE \<and>
   main no_regions_Ext (Some example_Config) =
     ([EvLoad_SfM_Data ''sfm_data.json'', EvInit_region_type ''matches/image_describer.json'',
       EvProvider_load Regions_Provider ''matches''],
      Inl Invalid_regions) \<and>
   exit_status (main no_regions_Ext (Some example_Config)) = EXIT_FAILURE \<and>
   outcome (main example_Ext (Some example_Config)) = Inr stored_matches"
proof -
  have p: "sPredefinedPairList example_Config \<noteq> []" "sOutputFilename example_Config \<noteq> []"
    by (simp_all add: example_defs)
  have s1: "Load_SfM_Data no_regions_type_Ext (sSfM_Data_Filename example_Config)
              = Some example_sfm_data"
    and s2: "Load_SfM_Data no_regions_Ext (sSfM_Data_Filename example_Config)
              = Some example_sfm_data"
    and s3: "Load_SfM_Data example_Ext (sSfM_Data_Filename example_Config)
              = Some example_sfm_data"
    by (simp_all add: eval_defs)
  note a = regions_load_before_resume_check [OF p s1]
  note b = regions_load_before_resume_check [OF p s2]
  note c = regions_load_before_resume_check [OF p s3]
  have "Init_region_type_from_file no_regions_type_Ext
          (sImage_describer no_regions_type_Ext example_Config) = None"
    by (simp add: eval_defs)
  with a have a1: "main no_regions_type_Ext (Some example_Config) =
          ([EvLoad_SfM_Data (sSfM_Data_Filename example_Config),
            EvInit_region_type (sImage_describer no_regions_type_Ext example_Config)],
           Inl Invalid_regions_type_file)"
    and a2: "exit_status (main no_regions_type_Ext (Some example_Config)) = EXIT_FAILURE"
    by blast+
  have "Init_region_type_from_file no_regions_Ext
          (sImage_describer no_regions_Ext example_Config) = Some scalar_regions \<and>
        provider_load no_regions_Ext (make_regions_provider (ui_max_cache_size example_Config))
          example_sfm_data (sMatchesDirectory no_regions_Ext example_Config) scalar_regions
          = None"
    by (simp add: eval_defs)
  with b have b1: "main no_regions_Ext (Some example_Config) =
          (loading_events no_regions_Ext example_Config, Inl Invalid_regions)"
    and b2: "exit_status (main no_regions_Ext (Some example_Config)) = EXIT_FAILURE"
    by blast+
  have "regions_loaded example_Ext example_Config example_sfm_data scalar_regions example_cache
        \<and> \<not> recomputes example_Ext example_Config \<and>
        Load_matches example_Ext (sOutputFilename example_Config) = Some stored_matches"
    using example_loaded example_resumes by (simp add: example_defs)
  with c have c1: "outcome (main example_Ext (Some example_Config)) = Inr stored_matches"
    by blast
  have f: "\<not> bForce example_Config"
    "file_exists no_regions_type_Ext (sOutputFilename example_Config)"
    "file_exists no_regions_Ext (sOutputFilename example_Config)"
    by (simp_all add: eval_defs)
  from a1 have a3: "main no_regions_type_Ext (Some example_Config) =
     ([EvLoad_SfM_Data ''sfm_data.json'', EvInit_region_type ''matches/image_describer.json''],
      Inl Invalid_regions_type_file)"
    by (simp add: eval_defs)
  from b1 have b3: "main no_regions_Ext (Some example_Config) =
     ([EvLoad_SfM_Data ''sfm_data.json'', EvInit_region_type ''matches/image_describer.json'',
       EvProvider_load Regions_Provider ''matches''],
      Inl Invalid_regions)"
    by (simp add: eval_defs)
  from f a3 a2 b3 b2 c1 show ?thesis
    by (intro conjI)
qed

end
